theory Spec2Isabelle
  imports Complex_Main
begin

section \<open>Values shared by the services\<close>

text \<open>
  The body of an upstream response, as far as the services read it: the model name, the
  usage telemetry and the rest of the payload. A field that is missing, or whose value
  is not of the expected JavaScript type, is \<open>None\<close>.
\<close>

record openai_usage =
  prompt_tokens :: "int option"
  completion_tokens :: "int option"
  total_tokens :: "int option"

record openai_body =
  body_model :: "string option"
  body_usage :: "openai_usage option"
  payload :: string

record http_response =
  status :: nat
  headers :: "(string \<times> string) list"
  data :: openai_body

text \<open>
  A thrown or returned error object: \<open>message\<close>, the optional \<open>code\<close> (set by the
  datastore client, by axios and by the proxy itself) and the optional \<open>response\<close>
  that axios attaches.
\<close>

record js_error =
  message :: string
  code :: "string option"
  response :: "http_response option"

definition Error :: "string \<Rightarrow> js_error" where
  "Error msg = \<lparr>message = msg, code = None, response = None\<rparr>"

text \<open>\<open>haystack.includes(needle)\<close> on strings.\<close>

fun str_includes :: "string \<Rightarrow> string \<Rightarrow> bool" where
  "str_includes [] needle = (needle = [])"
| "str_includes (c # cs) needle = (take (length needle) (c # cs) = needle \<or> str_includes cs needle)"

text \<open>
  The readings of \<open>new Date()\<close> that the services use: the instant in milliseconds,
  its \<open>toISOString()\<close> and the first instant of its calendar month in UTC.
\<close>

record clock =
  now_ms :: nat
  iso :: string
  startOfMonth :: nat

section \<open>The datastore\<close>

text \<open>
  The tables the services read and write, each a list of rows in insertion order.
  Columns the services never read (names, descriptions, \<open>updated_at\<close>) and the generated
  \<open>id\<close> and \<open>created_at\<close> of \<open>alerts\<close> are left out.
\<close>

record proxy_key =
  key_id :: string
  key_organization_id :: string
  key_project_id :: string
  key_value :: string
  key_name :: string
  is_active :: bool
  key_created_by :: string
  key_created_at :: nat
  revoked_at :: "string option"

record organization =
  org_id :: string
  openai_api_key :: "string option"
  org_monthly_budget_usd :: "rat option"

record project =
  proj_id :: string
  proj_organization_id :: string
  proj_monthly_budget_usd :: "rat option"

record usage_log =
  request_id :: string
  log_organization_id :: string
  log_project_id :: string
  log_proxy_key_id :: string
  log_model :: string
  provider :: string
  tokens_prompt :: int
  tokens_completion :: int
  cost_usd :: rat
  price_prompt_per_million :: "rat option"
  price_completion_per_million :: "rat option"
  currency :: string
  log_status :: string
  created_at :: nat

datatype alert_level = organization_level | project_level

text \<open>
  The scope columns are shared by the parameters of \<open>evaluateThresholds\<close>, the
  parameters of \<open>recordAlert\<close> and the rows of \<open>alerts\<close>; an organization-level
  alert has no project.
\<close>

record scoped =
  organization_id :: string
  project_id :: "string option"
  alert_level :: alert_level

record alert_params = scoped +
  threshold_percent :: nat
  budget_amount :: rat
  actual_spend :: rat

record alert = alert_params +
  month_year :: string

record evaluation = scoped +
  budget :: rat
  actual :: rat

record database =
  proxy_keys :: "proxy_key list"
  organizations :: "organization list"
  projects :: "project list"
  usage_logs :: "usage_log list"
  alerts :: "alert list"

text \<open>
  Every datastore request can fail for a reason of its own (connection, permission, a
  constraint other than the ones modelled). Which request fails, and with what error
  object, is an input: a function from the request to the error it meets, if any.
\<close>

datatype db_request =
    select_active_proxy_keys
  | insert_proxy_key proxy_key
  | update_proxy_key_revoked string string
  | select_organization_openai_key string
  | select_organization_budget string
  | select_project_budget string
  | select_usage_costs string "string option"
  | insert_usage_log usage_log
  | insert_alert alert

type_synonym faults = "db_request \<Rightarrow> js_error option"

text \<open>\<open>.single()\<close>: exactly one row, otherwise the client reports PGRST116.\<close>

definition single :: "'r list \<Rightarrow> js_error + 'r" where
  "single rows =
    (case rows of
       [r] \<Rightarrow> Inr r
     | _ \<Rightarrow> Inl \<lparr>message = ''JSON object requested, multiple (or no) rows returned'',
                  code = Some ''PGRST116'', response = None\<rparr>)"

section \<open>Pricing (pricingService.js)\<close>

text \<open>
  JavaScript numbers are modelled as exact rationals: the arithmetic of
  \<open>calculateCost\<close> is carried out without the rounding error of IEEE doubles.
  \<open>Math.round\<close> rounds to the nearest integer with ties towards plus infinity,
  which is \<^const>\<open>round\<close> (\<open>round x = \<lfloor>x + 1/2\<rfloor>\<close>).
\<close>

record pricing =
  prompt :: rat
  completion :: rat

definition getPricingTable :: "(string \<times> pricing) list" where
  "getPricingTable =
    [(''gpt-3.5-turbo'',       \<lparr>prompt = 1/2,   completion = 3/2\<rparr>),
     (''gpt-3.5-turbo-0125'',  \<lparr>prompt = 1/2,   completion = 3/2\<rparr>),
     (''gpt-3.5-turbo-1106'',  \<lparr>prompt = 1,     completion = 2\<rparr>),
     (''gpt-4'',               \<lparr>prompt = 30,    completion = 60\<rparr>),
     (''gpt-4-0613'',          \<lparr>prompt = 30,    completion = 60\<rparr>),
     (''gpt-4-turbo'',         \<lparr>prompt = 10,    completion = 30\<rparr>),
     (''gpt-4-turbo-preview'', \<lparr>prompt = 10,    completion = 30\<rparr>),
     (''gpt-4o'',              \<lparr>prompt = 5,     completion = 15\<rparr>),
     (''gpt-4o-mini'',         \<lparr>prompt = 15/100, completion = 60/100\<rparr>)]"

text \<open>\<open>pricingTable[model] || null\<close>: the table entry, or nothing.\<close>

definition getModelPricing :: "string \<Rightarrow> pricing option" where
  "getModelPricing model = map_of getPricingTable model"

definition calculateCost :: "string \<Rightarrow> int \<Rightarrow> int \<Rightarrow> rat" where
  "calculateCost model promptTokens completionTokens =
    (case getModelPricing model of
       None \<Rightarrow> 0
     | Some pricing \<Rightarrow>
         let promptCost = (of_int promptTokens / 1000000) * prompt pricing;
             completionCost = (of_int completionTokens / 1000000) * completion pricing;
             totalCost = promptCost + completionCost
         in of_int (round (totalCost * 1000000)) / 1000000)"


section \<open>Alerts (alertService.js, migrations/004_budgets_and_alerts.sql)\<close>

text \<open>
  The two partial unique indexes of the migration:
  \<open>(organization_id, threshold_percent, month_year) WHERE project_id IS NULL\<close> and
  \<open>(project_id, threshold_percent, month_year) WHERE project_id IS NOT NULL\<close>.
  A new row \<open>r\<close> is refused when an existing row \<open>x\<close> falls under the same index
  with the same indexed columns.
\<close>

definition same_index_entry :: "alert \<Rightarrow> alert \<Rightarrow> bool" where
  "same_index_entry r x =
    (threshold_percent x = threshold_percent r \<and> month_year x = month_year r \<and>
     (case project_id r of
        None \<Rightarrow> project_id x = None \<and> organization_id x = organization_id r
      | Some p \<Rightarrow> project_id x = Some p))"

definition violates_unique_alert :: "alert \<Rightarrow> alert list \<Rightarrow> bool" where
  "violates_unique_alert r tbl = list_ex (same_index_entry r) tbl"

definition unique_violation :: js_error where
  "unique_violation =
    \<lparr>message = ''duplicate key value violates unique constraint'',
     code = Some ''23505'', response = None\<rparr>"

definition db_insert_alert :: "faults \<Rightarrow> alert \<Rightarrow> database \<Rightarrow> (js_error + alert) \<times> database" where
  "db_insert_alert F row db =
    (case F (insert_alert row) of
       Some e \<Rightarrow> (Inl e, db)
     | None \<Rightarrow>
         if violates_unique_alert row (alerts db) then (Inl unique_violation, db)
         else (Inr row, db\<lparr>alerts := alerts db @ [row]\<rparr>))"

text \<open>
  The three results of \<open>recordAlert\<close>: \<open>{success: true, data}\<close>,
  \<open>{success: true, already_sent: true}\<close> and \<open>{success: false, error}\<close>.
  The function never throws: its \<open>catch\<close> turns every other failure into the third.
\<close>

datatype alert_result = recorded alert | already_sent | not_recorded string

fun success :: "alert_result \<Rightarrow> bool" where
  "success (recorded _) = True"
| "success already_sent = True"
| "success (not_recorded _) = False"

definition alert_row :: "clock \<Rightarrow> alert_params \<Rightarrow> alert" where
  "alert_row clk params =
    \<lparr>organization_id = organization_id params, project_id = project_id params,
     alert_level = alert_level params, threshold_percent = threshold_percent params,
     budget_amount = budget_amount params, actual_spend = actual_spend params,
     month_year = take 7 (iso clk)\<rparr>"

definition recordAlert :: "faults \<Rightarrow> clock \<Rightarrow> alert_params \<Rightarrow> database \<Rightarrow> alert_result \<times> database" where
  "recordAlert F clk params db =
    (case db_insert_alert F (alert_row clk params) db of
       (Inl error, db') \<Rightarrow>
         if code error = Some ''23505'' then (already_sent, db')
         else (not_recorded (message error), db')
     | (Inr inserted, db') \<Rightarrow> (recorded inserted, db'))"

text \<open>A sequence of \<open>recordAlert\<close> calls, each with its own faults, clock and parameters.\<close>

fun recordAlert_calls :: "(faults \<times> clock \<times> alert_params) list \<Rightarrow> database \<Rightarrow> database" where
  "recordAlert_calls [] db = db"
| "recordAlert_calls ((F, clk, params) # calls) db =
     recordAlert_calls calls (snd (recordAlert F clk params db))"

text \<open>The (scope, threshold, period) triple of a row.\<close>

datatype scope = organization_scope string | project_scope string

definition alert_scope :: "alert \<Rightarrow> scope" where
  "alert_scope r =
    (case project_id r of
       None \<Rightarrow> organization_scope (organization_id r)
     | Some p \<Rightarrow> project_scope p)"

definition alert_key :: "alert \<Rightarrow> scope \<times> nat \<times> string" where
  "alert_key r = (alert_scope r, threshold_percent r, month_year r)"

section \<open>Budgets (budgetService.js)\<close>

text \<open>
  \<open>calculateMTDSpend\<close>: the costs of the usage rows of the organization created since
  the start of the month, restricted to the project when \<open>projectId\<close> is truthy (a
  non-empty string), added up and rounded to 6 decimals.
\<close>

definition calculateMTDSpend :: "faults \<Rightarrow> clock \<Rightarrow> string \<Rightarrow> string option \<Rightarrow> database \<Rightarrow> js_error + rat" where
  "calculateMTDSpend F clk organizationId projectId db =
    (case F (select_usage_costs organizationId projectId) of
       Some error \<Rightarrow> Inl error
     | None \<Rightarrow>
         let rows = filter (\<lambda>r. log_organization_id r = organizationId
                              \<and> startOfMonth clk \<le> created_at r
                              \<and> (case projectId of
                                     None \<Rightarrow> True
                                   | Some p \<Rightarrow> p = [] \<or> log_project_id r = p))
                      (usage_logs db);
             total = sum_list (map cost_usd rows)
         in Inr (of_int (round (total * 1000000)) / 1000000))"

text \<open>\<open>getOrgBudget\<close> and \<open>getProjectBudget\<close> return the pair \<open>{budget, actual_spend}\<close>.\<close>

definition getOrgBudget :: "faults \<Rightarrow> clock \<Rightarrow> string \<Rightarrow> database \<Rightarrow> js_error + (rat option \<times> rat)" where
  "getOrgBudget F clk organizationId db =
    (case F (select_organization_budget organizationId) of
       Some orgError \<Rightarrow> Inl orgError
     | None \<Rightarrow>
        (case single (filter (\<lambda>r. org_id r = organizationId) (organizations db)) of
           Inl orgError \<Rightarrow> Inl orgError
         | Inr org \<Rightarrow>
            (case calculateMTDSpend F clk organizationId None db of
               Inl error \<Rightarrow> Inl error
             | Inr mtdSpend \<Rightarrow> Inr (org_monthly_budget_usd org, mtdSpend))))"

definition getProjectBudget :: "faults \<Rightarrow> clock \<Rightarrow> string \<Rightarrow> database \<Rightarrow> js_error + (rat option \<times> rat)" where
  "getProjectBudget F clk projectId db =
    (case F (select_project_budget projectId) of
       Some pError \<Rightarrow> Inl pError
     | None \<Rightarrow>
        (case single (filter (\<lambda>r. proj_id r = projectId) (projects db)) of
           Inl pError \<Rightarrow> Inl pError
         | Inr project \<Rightarrow>
            (case calculateMTDSpend F clk (proj_organization_id project) (Some projectId) db of
               Inl error \<Rightarrow> Inl error
             | Inr mtdSpend \<Rightarrow> Inr (proj_monthly_budget_usd project, mtdSpend))))"

text \<open>
  \<open>(actual / budget) * 100\<close> as JavaScript computes it: dividing by zero gives an
  infinity, or \<open>NaN\<close> for \<open>0 / 0\<close>. \<open>at_least x t\<close> is the comparison \<open>x >= t\<close>.
\<close>

datatype js_number = finite rat | positive_infinity | negative_infinity | not_a_number

definition percentUsed :: "rat \<Rightarrow> rat \<Rightarrow> js_number" where
  "percentUsed spend limit =
    (if limit \<noteq> 0 then finite ((spend / limit) * 100)
     else if 0 < spend then positive_infinity
     else if spend < 0 then negative_infinity
     else not_a_number)"

fun at_least :: "js_number \<Rightarrow> nat \<Rightarrow> bool" where
  "at_least (finite x) t = (of_nat t \<le> x)"
| "at_least positive_infinity t = True"
| "at_least negative_infinity t = False"
| "at_least not_a_number t = False"

definition threshold_alert :: "evaluation \<Rightarrow> nat \<Rightarrow> alert_params" where
  "threshold_alert params t =
    \<lparr>organization_id = organization_id params, project_id = project_id params,
     alert_level = alert_level params, threshold_percent = t,
     budget_amount = budget params, actual_spend = actual params\<rparr>"

text \<open>
  The loop of \<open>evaluateThresholds\<close> over the remaining thresholds. The result is the
  list of \<open>recordAlert\<close> calls made, in order, and the datastore afterwards.
\<close>

fun evaluate_loop :: "faults \<Rightarrow> clock \<Rightarrow> evaluation \<Rightarrow> js_number \<Rightarrow> nat list \<Rightarrow> database
    \<Rightarrow> alert_params list \<times> database" where
  "evaluate_loop F clk params pct [] db = ([], db)"
| "evaluate_loop F clk params pct (t # ts) db =
    (if at_least pct t
     then ([threshold_alert params t], snd (recordAlert F clk (threshold_alert params t) db))
     else evaluate_loop F clk params pct ts db)"

definition thresholds :: "nat list" where
  "thresholds = [100, 90, 75, 50]"

definition evaluateThresholds :: "faults \<Rightarrow> clock \<Rightarrow> evaluation \<Rightarrow> database \<Rightarrow> alert_params list \<times> database" where
  "evaluateThresholds F clk params db =
    evaluate_loop F clk params (percentUsed (actual params) (budget params)) thresholds db"

text \<open>
  \<open>checkBudgets\<close>: the organization scope, then the project scope. The guard
  \<open>budget > 0\<close> is false on a \<open>null\<close> budget. An error thrown by a read ends the
  check; the \<open>catch\<close> absorbs it.
\<close>

definition checkBudgets :: "faults \<Rightarrow> clock \<Rightarrow> string \<Rightarrow> string \<Rightarrow> database \<Rightarrow> alert_params list \<times> database" where
  "checkBudgets F clk organizationId projectId db =
    (case getOrgBudget F clk organizationId db of
       Inl error \<Rightarrow> ([], db)
     | Inr (orgBudget, orgSpend) \<Rightarrow>
        (case (case orgBudget of
                 None \<Rightarrow> ([], db)
               | Some b \<Rightarrow>
                   if 0 < b
                   then evaluateThresholds F clk
                          \<lparr>organization_id = organizationId, project_id = None,
                           alert_level = organization_level,
                           budget = b, actual = orgSpend\<rparr> db
                   else ([], db)) of
           (calls1, db1) \<Rightarrow>
             (case getProjectBudget F clk projectId db1 of
                Inl error \<Rightarrow> (calls1, db1)
              | Inr (projectBudget, projectSpend) \<Rightarrow>
                 (case (case projectBudget of
                          None \<Rightarrow> ([], db1)
                        | Some b \<Rightarrow>
                            if 0 < b
                            then evaluateThresholds F clk
                                   \<lparr>organization_id = organizationId, project_id = Some projectId,
                                    alert_level = project_level,
                                    budget = b, actual = projectSpend\<rparr> db1
                            else ([], db1)) of
                    (calls2, db2) \<Rightarrow> (calls1 @ calls2, db2)))))"

text \<open>The two guarded evaluations inside \<open>checkBudgets\<close>, named for the proofs.\<close>

definition organization_step :: "faults \<Rightarrow> clock \<Rightarrow> string \<Rightarrow> rat option \<Rightarrow> rat \<Rightarrow> database \<Rightarrow> alert_params list \<times> database" where
  "organization_step F clk organizationId orgBudget orgSpend db =
     (case orgBudget of
                 None \<Rightarrow> ([], db)
               | Some b \<Rightarrow>
                   if 0 < b
                   then evaluateThresholds F clk
                          \<lparr>organization_id = organizationId, project_id = None,
                           alert_level = organization_level,
                           budget = b, actual = orgSpend\<rparr> db
                   else ([], db))"

definition project_step :: "faults \<Rightarrow> clock \<Rightarrow> string \<Rightarrow> string \<Rightarrow> rat option \<Rightarrow> rat \<Rightarrow> database \<Rightarrow> alert_params list \<times> database" where
  "project_step F clk organizationId projectId projectBudget projectSpend db1 =
     (case projectBudget of
                          None \<Rightarrow> ([], db1)
                        | Some b \<Rightarrow>
                            if 0 < b
                            then evaluateThresholds F clk
                                   \<lparr>organization_id = organizationId, project_id = Some projectId,
                                    alert_level = project_level,
                                    budget = b, actual = projectSpend\<rparr> db1
                            else ([], db1))"

section \<open>Buffers, hex and the process configuration\<close>

text \<open>
  A \<open>Buffer\<close> is a list of bytes, and so is a \<^typ>\<open>string\<close> here (a \<^typ>\<open>char\<close> is
  a byte): a JavaScript string is modelled as its UTF-8 bytes, and encoding a string as
  \<open>utf8\<close> or decoding a buffer as \<open>utf8\<close> is the identity.
\<close>

type_synonym buffer = string

definition hex_digit :: "nat \<Rightarrow> char" where
  "hex_digit n = ''0123456789abcdef'' ! (n mod 16)"

definition hex_value :: "char \<Rightarrow> nat option" where
  "hex_value c =
    (let n = (of_char c :: nat)
     in if 48 \<le> n \<and> n \<le> 57 then Some (n - 48)
        else if 97 \<le> n \<and> n \<le> 102 then Some (n - 87)
        else if 65 \<le> n \<and> n \<le> 70 then Some (n - 55)
        else None)"

text \<open>\<open>buf.toString('hex')\<close>: two lower-case digits per byte.\<close>

definition to_hex :: "buffer \<Rightarrow> string" where
  "to_hex buf = concat (map (\<lambda>c. [hex_digit (of_char c div 16), hex_digit (of_char c mod 16)]) buf)"

text \<open>
  \<open>Buffer.from(s, 'hex')\<close>: one byte per pair of hex digits; decoding stops at the first
  pair that is not two hex digits, and a trailing single character is dropped.
\<close>

fun from_hex :: "string \<Rightarrow> buffer" where
  "from_hex (a # b # rest) =
    (case (hex_value a, hex_value b) of
       (Some x, Some y) \<Rightarrow> char_of (16 * x + y) # from_hex rest
     | _ \<Rightarrow> [])"
| "from_hex _ = []"

text \<open>\<open>s.split(sep)\<close> for a one-character separator.\<close>

fun split_acc :: "char \<Rightarrow> string \<Rightarrow> string \<Rightarrow> string list" where
  "split_acc sep acc [] = [rev acc]"
| "split_acc sep acc (x # xs) =
    (if x = sep then rev acc # split_acc sep [] xs else split_acc sep (x # acc) xs)"

definition split :: "char \<Rightarrow> string \<Rightarrow> string list" where
  "split sep s = split_acc sep [] s"

text \<open>\<open>parts.join(sep)\<close>.\<close>

fun join :: "string \<Rightarrow> string list \<Rightarrow> string" where
  "join sep [] = []"
| "join sep [x] = x"
| "join sep (x # y # ys) = x @ sep @ join sep (y # ys)"

text \<open>
  The cryptographic primitives of Node's \<open>crypto\<close> module are parameters of the model:
  HMAC-SHA256 with a hex digest, and AES-256-GCM as a pair of functions.
  \<open>seal key iv plaintext\<close> is the ciphertext and the authentication tag, or nothing
  when the cipher throws (a key or IV it does not accept);
  \<open>unseal key iv tag ciphertext\<close> is the plaintext, or nothing when the cipher throws
  (a tag that does not verify).
\<close>

record config =
  PROXY_KEY_SECRET :: "string option"
  OPENAI_KEY_ENCRYPTION_SECRET :: "string option"
  hmac_sha256_hex :: "string \<Rightarrow> string \<Rightarrow> string"
  seal :: "buffer \<Rightarrow> buffer \<Rightarrow> buffer \<Rightarrow> (buffer \<times> buffer) option"
  unseal :: "buffer \<Rightarrow> buffer \<Rightarrow> buffer \<Rightarrow> buffer \<Rightarrow> buffer option"

section \<open>Proxy keys (proxyKeyService.js)\<close>

definition getServerSecret :: "config \<Rightarrow> js_error + string" where
  "getServerSecret cfg =
    (case PROXY_KEY_SECRET cfg of
       None \<Rightarrow> Inl (Error ''PROXY_KEY_SECRET environment variable is not set'')
     | Some secret \<Rightarrow>
         if secret = [] then Inl (Error ''PROXY_KEY_SECRET environment variable is not set'')
         else Inr secret)"

text \<open>\<open>generateKeyValue\<close>, from the 32 bytes that \<open>crypto.randomBytes\<close> returned.\<close>

definition generateKeyValue :: "buffer \<Rightarrow> string" where
  "generateKeyValue randomBytes = ''sk-spendai-'' @ to_hex randomBytes"

definition hashKeyValue :: "config \<Rightarrow> string \<Rightarrow> js_error + string" where
  "hashKeyValue cfg keyValue =
    (case getServerSecret cfg of
       Inl error \<Rightarrow> Inl error
     | Inr secret \<Rightarrow> Inr (hmac_sha256_hex cfg secret keyValue))"

definition maskKeyValue :: "string \<Rightarrow> string" where
  "maskKeyValue keyValue =
    (if keyValue = [] \<or> length keyValue < 4 then ''****''
     else ''sk-****'' @ drop (length keyValue - 4) keyValue)"

text \<open>
  The insert of \<open>createProxyKey\<close>. The datastore generates \<open>id\<close> (the argument
  \<open>newId\<close>) and \<open>created_at\<close>, and enforces the primary key on \<open>id\<close> and the
  \<open>UNIQUE\<close> constraint on \<open>key_value\<close>. The result is the created row and the key value,
  which is returned only here.
\<close>

definition createProxyKey :: "config \<Rightarrow> faults \<Rightarrow> clock \<Rightarrow> buffer \<Rightarrow> string
    \<Rightarrow> string \<Rightarrow> string \<Rightarrow> string \<Rightarrow> string \<Rightarrow> database
    \<Rightarrow> (js_error + proxy_key \<times> string) \<times> database" where
  "createProxyKey cfg F clk randomBytes newId organizationId projectId userId name db =
    (let keyValue = generateKeyValue randomBytes
     in case hashKeyValue cfg keyValue of
          Inl error \<Rightarrow> (Inl error, db)
        | Inr keyHash \<Rightarrow>
            let masked = maskKeyValue keyValue;
                row = \<lparr>key_id = newId, key_organization_id = organizationId,
                       key_project_id = projectId, key_value = keyHash,
                       key_name = (if name = [] then masked else name), is_active = True,
                       key_created_by = userId, key_created_at = now_ms clk,
                       revoked_at = None\<rparr>
            in case F (insert_proxy_key row) of
                 Some error \<Rightarrow>
                   (Inl (Error (''Failed to create proxy key: '' @ message error)), db)
               | None \<Rightarrow>
                   if list_ex (\<lambda>k. key_id k = newId \<or> key_value k = keyHash) (proxy_keys db)
                   then (Inl (Error (''Failed to create proxy key: '' @ message unique_violation)), db)
                   else (Inr (row, keyValue), db\<lparr>proxy_keys := proxy_keys db @ [row]\<rparr>))"

text \<open>
  \<open>revokeProxyKey\<close>: the update sets \<open>is_active\<close> and \<open>revoked_at\<close> on every row with
  the given id and organization, whatever its state; \<open>.single()\<close> then wants exactly one
  updated row.
\<close>

definition revokeProxyKey :: "faults \<Rightarrow> clock \<Rightarrow> string \<Rightarrow> string \<Rightarrow> database
    \<Rightarrow> (js_error + proxy_key) \<times> database" where
  "revokeProxyKey F clk keyId organizationId db =
    (let failed = (\<lambda>error. if code error = Some ''PGRST116'' then Error ''Proxy key not found''
                            else Error (''Failed to revoke proxy key: '' @ message error))
     in case F (update_proxy_key_revoked keyId organizationId) of
          Some error \<Rightarrow> (Inl (failed error), db)
        | None \<Rightarrow>
            let hit = (\<lambda>k. key_id k = keyId \<and> key_organization_id k = organizationId);
                updated = map (\<lambda>k. if hit k then k\<lparr>is_active := False, revoked_at := Some (iso clk)\<rparr>
                                     else k) (proxy_keys db);
                db' = db\<lparr>proxy_keys := updated\<rparr>
            in case single (filter hit updated) of
                 Inl error \<Rightarrow> (Inl (failed error), db')
               | Inr row \<Rightarrow> (Inr row, db'))"

text \<open>A row as the update of \<open>revokeProxyKey\<close> leaves it.\<close>

definition revoked_row :: "clock \<Rightarrow> proxy_key \<Rightarrow> proxy_key" where
  "revoked_row clk k = k\<lparr>is_active := False, revoked_at := Some (iso clk)\<rparr>"

text \<open>The credential with id \<open>i\<close> exists, and every row with that id is inactive.\<close>

definition revoked_in :: "string \<Rightarrow> database \<Rightarrow> bool" where
  "revoked_in i db \<longleftrightarrow>
     list_ex (\<lambda>k. key_id k = i) (proxy_keys db)
     \<and> list_all (\<lambda>k. key_id k = i \<longrightarrow> \<not> is_active k) (proxy_keys db)"

text \<open>The administrative operations that write \<open>proxy_keys\<close>, and a sequence of them.\<close>

datatype key_operation =
    create faults clock buffer string string string string string
  | revoke faults clock string string

fun apply_key_operation :: "config \<Rightarrow> key_operation \<Rightarrow> database \<Rightarrow> database" where
  "apply_key_operation cfg (create F clk randomBytes newId organizationId projectId userId name) db =
     snd (createProxyKey cfg F clk randomBytes newId organizationId projectId userId name db)"
| "apply_key_operation cfg (revoke F clk keyId organizationId) db =
     snd (revokeProxyKey F clk keyId organizationId db)"

fun apply_key_operations :: "config \<Rightarrow> key_operation list \<Rightarrow> database \<Rightarrow> database" where
  "apply_key_operations cfg [] db = db"
| "apply_key_operations cfg (operation # operations) db =
     apply_key_operations cfg operations (apply_key_operation cfg operation db)"

text \<open>
  \<open>verifyProxyKey\<close>. The loop compares the decoded stored hash of each active key with
  the decoded hash of the provided key (\<open>timingSafeEqual\<close> on buffers of equal length)
  and stops at the first match.
\<close>

record verified_key =
  verified_id :: string
  verified_organization_id :: string
  verified_project_id :: string
  verified_is_active :: bool

fun find_matching_key :: "buffer \<Rightarrow> proxy_key list \<Rightarrow> proxy_key option" where
  "find_matching_key providedHashBuffer [] = None"
| "find_matching_key providedHashBuffer (key # keys) =
    (let storedHashBuffer = from_hex (key_value key)
     in if length storedHashBuffer = length providedHashBuffer
           \<and> storedHashBuffer = providedHashBuffer
        then Some key
        else find_matching_key providedHashBuffer keys)"

text \<open>The body of the \<open>try\<close> block, with the error each step throws.\<close>

definition verifyProxyKey_try :: "config \<Rightarrow> faults \<Rightarrow> string \<Rightarrow> database \<Rightarrow> js_error + verified_key" where
  "verifyProxyKey_try cfg F keyValue db =
    (case hashKeyValue cfg keyValue of
       Inl error \<Rightarrow> Inl error
     | Inr keyHash \<Rightarrow>
        (case F select_active_proxy_keys of
           Some error \<Rightarrow> Inl (Error ''Key verification failed'')
         | None \<Rightarrow>
             let keys = filter is_active (proxy_keys db)
             in if keys = [] then Inl (Error ''Invalid or revoked proxy key'')
                else (case find_matching_key (from_hex keyHash) keys of
                        None \<Rightarrow> Inl (Error ''Invalid or revoked proxy key'')
                      | Some matchedKey \<Rightarrow>
                          if \<not> is_active matchedKey
                          then Inl (Error ''Invalid or revoked proxy key'')
                          else Inr \<lparr>verified_id = key_id matchedKey,
                                    verified_organization_id = key_organization_id matchedKey,
                                    verified_project_id = key_project_id matchedKey,
                                    verified_is_active = is_active matchedKey\<rparr>)))"

text \<open>The \<open>catch\<close> block replaces whatever was thrown.\<close>

definition verifyProxyKey :: "config \<Rightarrow> faults \<Rightarrow> string \<Rightarrow> database \<Rightarrow> js_error + verified_key" where
  "verifyProxyKey cfg F keyValue db =
    (case verifyProxyKey_try cfg F keyValue db of
       Inl error \<Rightarrow> Inl (Error ''Invalid or revoked proxy key'')
     | Inr verified \<Rightarrow> Inr verified)"

section \<open>Encryption (encryptionService.js)\<close>

definition getMasterKey :: "config \<Rightarrow> js_error + buffer" where
  "getMasterKey cfg =
    (case OPENAI_KEY_ENCRYPTION_SECRET cfg of
       None \<Rightarrow> Inl (Error ''OPENAI_KEY_ENCRYPTION_SECRET environment variable is not set'')
     | Some secret \<Rightarrow>
         if secret = []
         then Inl (Error ''OPENAI_KEY_ENCRYPTION_SECRET environment variable is not set'')
         else if length secret \<noteq> 64
         then Inl (Error ''OPENAI_KEY_ENCRYPTION_SECRET must be 32 bytes (64 hex chars)'')
         else Inr (from_hex secret))"


definition decrypt :: "config \<Rightarrow> string \<Rightarrow> js_error + string" where
  "decrypt cfg encrypted =
    (if encrypted = [] then Inl (Error ''Encrypted text must be a non-empty string'')
     else (case split CHR '':'' encrypted of
             [part0, part1, part2] \<Rightarrow>
               (case getMasterKey cfg of
                  Inl error \<Rightarrow>
                    Inl (Error ''Failed to decrypt OpenAI API key (corrupted or tampered)'')
                | Inr key \<Rightarrow>
                   (case unseal cfg key (from_hex part0) (from_hex part1) (from_hex part2) of
                      None \<Rightarrow>
                        Inl (Error ''Failed to decrypt OpenAI API key (corrupted or tampered)'')
                    | Some plaintext \<Rightarrow> Inr plaintext))
           | _ \<Rightarrow> Inl (Error ''Failed to decrypt OpenAI API key (corrupted or tampered)'')))"

text \<open>\<open>isEncrypted\<close>: three parts, each matching \<open>/^[0-9a-f]+$/i\<close>.\<close>

definition isEncrypted :: "string \<Rightarrow> bool" where
  "isEncrypted v =
    (v \<noteq> [] \<and>
     (let parts = split CHR '':'' v
      in length parts = 3
         \<and> list_all (\<lambda>part. part \<noteq> [] \<and> list_all (\<lambda>c. hex_value c \<noteq> None) part) parts))"


section \<open>Usage logging (usageLoggingService.js)\<close>

record usage_data =
  usage_model :: string
  usage_prompt_tokens :: int
  usage_completion_tokens :: int
  usage_total_tokens :: "int option"

definition extractUsageFromResponse :: "openai_body \<Rightarrow> usage_data option" where
  "extractUsageFromResponse openaiResponse =
    (case body_model openaiResponse of
       None \<Rightarrow> None
     | Some modelName \<Rightarrow>
         if modelName = [] then None
         else (case body_usage openaiResponse of
                 None \<Rightarrow> None
               | Some usage \<Rightarrow>
                  (case (prompt_tokens usage, completion_tokens usage) of
                     (Some p, Some c) \<Rightarrow>
                       Some \<lparr>usage_model = modelName, usage_prompt_tokens = p,
                             usage_completion_tokens = c,
                             usage_total_tokens = total_tokens usage\<rparr>
                   | _ \<Rightarrow> None)))"

text \<open>
  \<open>logUsage\<close>: validation, cost and price snapshot, the insert, then the budget check.
  The budget check is started without being awaited; here it runs right after the
  insert. The result is the error thrown or the inserted row.
\<close>

definition logUsage :: "faults \<Rightarrow> clock \<Rightarrow> string \<Rightarrow> string \<Rightarrow> string \<Rightarrow> string \<Rightarrow> string
    \<Rightarrow> int \<Rightarrow> int \<Rightarrow> database \<Rightarrow> (js_error + usage_log) \<times> database" where
  "logUsage F clk requestId organizationId projectId proxyKeyId modelName promptTokens
      completionTokens db =
    (if requestId = [] \<or> organizationId = [] \<or> projectId = [] \<or> proxyKeyId = []
        \<or> modelName = []
     then (Inl (Error ''Missing required fields for usage logging''), db)
     else if promptTokens < 0 \<or> completionTokens < 0
     then (Inl (Error ''Token counts cannot be negative''), db)
     else
       let pricing = getModelPricing modelName;
           row = \<lparr>request_id = requestId, log_organization_id = organizationId,
                  log_project_id = projectId, log_proxy_key_id = proxyKeyId,
                  log_model = modelName, provider = ''openai'',
                  tokens_prompt = promptTokens, tokens_completion = completionTokens,
                  cost_usd = calculateCost modelName promptTokens completionTokens,
                  price_prompt_per_million = map_option prompt pricing,
                  price_completion_per_million = map_option completion pricing,
                  currency = ''USD'', log_status = ''success'', created_at = now_ms clk\<rparr>
       in case F (insert_usage_log row) of
            Some error \<Rightarrow> (Inl (Error (''Failed to log usage: '' @ message error)), db)
          | None \<Rightarrow>
              (Inr row,
               snd (checkBudgets F clk organizationId projectId
                      (db\<lparr>usage_logs := usage_logs db @ [row]\<rparr>))))"

definition logFromOpenAIResponse :: "faults \<Rightarrow> clock \<Rightarrow> string \<Rightarrow> string \<Rightarrow> string \<Rightarrow> string
    \<Rightarrow> openai_body \<Rightarrow> database \<Rightarrow> (js_error + usage_log option) \<times> database" where
  "logFromOpenAIResponse F clk requestId organizationId projectId proxyKeyId openaiResponse db =
    (case extractUsageFromResponse openaiResponse of
       None \<Rightarrow> (Inr None, db)
     | Some usage \<Rightarrow>
        (case logUsage F clk requestId organizationId projectId proxyKeyId (usage_model usage)
                (usage_prompt_tokens usage) (usage_completion_tokens usage) db of
           (Inl error, db') \<Rightarrow> (Inl error, db')
         | (Inr row, db') \<Rightarrow> (Inr (Some row), db')))"

section \<open>The proxy (openaiProxyService.js)\<close>

definition getSupportedModels :: "string list" where
  "getSupportedModels =
    [''gpt-3.5-turbo'', ''gpt-3.5-turbo-0125'', ''gpt-3.5-turbo-1106'', ''gpt-4'',
     ''gpt-4-0613'', ''gpt-4-turbo'', ''gpt-4-turbo-preview'', ''gpt-4o'', ''gpt-4o-mini'']"

text \<open>
  The request body: its \<open>model\<close>, which is \<open>None\<close> when the field is missing or is not
  a string, and the rest, which the proxy passes on unread.
\<close>

record chat_request =
  request_model :: "string option"
  messages :: string

datatype model_validation = valid | invalid string

definition validateModel :: "string option \<Rightarrow> model_validation" where
  "validateModel m =
    (case m of
       None \<Rightarrow> invalid ''model is required''
     | Some modelName \<Rightarrow>
         if modelName = [] then invalid ''model is required''
         else if modelName \<notin> set getSupportedModels
         then invalid (''Unsupported model: '' @ modelName @ ''. Supported models: ''
                        @ join '', '' getSupportedModels)
         else valid)"

definition getOrganizationOpenAIKey :: "config \<Rightarrow> faults \<Rightarrow> string \<Rightarrow> database \<Rightarrow> js_error + string" where
  "getOrganizationOpenAIKey cfg F organizationId db =
    (case F (select_organization_openai_key organizationId) of
       Some error \<Rightarrow> Inl (Error ''Failed to fetch organization OpenAI key'')
     | None \<Rightarrow>
        (case single (filter (\<lambda>r. org_id r = organizationId) (organizations db)) of
           Inl error \<Rightarrow> Inl (Error ''Failed to fetch organization OpenAI key'')
         | Inr row \<Rightarrow>
            (case openai_api_key row of
               None \<Rightarrow> Inl (Error ''Organization OpenAI API key not configured'')
             | Some encryptedKey \<Rightarrow>
                 if encryptedKey = []
                 then Inl (Error ''Organization OpenAI API key not configured'')
                 else if isEncrypted encryptedKey
                 then (case decrypt cfg encryptedKey of
                         Inl decryptError \<Rightarrow>
                           Inl (Error ''Failed to decrypt organization OpenAI API key'')
                       | Inr openaiApiKey \<Rightarrow> Inr openaiApiKey)
                 else Inr encryptedKey)))"

text \<open>
  \<open>buildForwardHeaders\<close>: the two fixed headers, then \<open>accept\<close> and \<open>user-agent\<close>
  when the request carries them, under their capitalised names.
\<close>

definition buildForwardHeaders :: "(string \<times> string) list \<Rightarrow> string \<Rightarrow> (string \<times> string) list" where
  "buildForwardHeaders requestHeaders openaiApiKey =
    [(''Content-Type'', ''application/json''), (''Authorization'', ''Bearer '' @ openaiApiKey)]
    @ concat (map (\<lambda>(header, headerName).
                     case map_of requestHeaders header of
                       None \<Rightarrow> []
                     | Some v \<Rightarrow> if v = [] then [] else [(headerName, v)])
                [(''accept'', ''Accept''), (''user-agent'', ''User-Agent'')])"

record upstream_request =
  url :: string
  body :: chat_request
  request_headers :: "(string \<times> string) list"
  timeout :: nat

record proxy_result =
  proxy_success :: bool
  error_text :: "string option"
  response_data :: openai_body
  statusCode :: nat
  response_headers :: "(string \<times> string) list"
  spendai_request_id :: string
  meta_organization_id :: "string option"
  meta_project_id :: "string option"
  meta_proxy_key_id :: "string option"
  timestamp :: "string option"
  openai_request_id :: "string option"

text \<open>The outer \<open>catch\<close> block: what becomes of an error thrown inside the \<open>try\<close>.\<close>

definition proxy_catch :: "string \<Rightarrow> js_error \<Rightarrow> js_error + proxy_result" where
  "proxy_catch requestId error =
    (if code error = Some ''INVALID_MODEL'' then Inl error
     else (case response error of
             Some r \<Rightarrow>
               Inr \<lparr>proxy_success = False, error_text = Some ''OpenAI API error'',
                    response_data = data r, statusCode = status r,
                    response_headers = headers r, spendai_request_id = requestId,
                    meta_organization_id = None, meta_project_id = None,
                    meta_proxy_key_id = None, timestamp = None, openai_request_id = None\<rparr>
           | None \<Rightarrow>
               if code error = Some ''ECONNABORTED'' then Inl (Error ''OpenAI request timeout'')
               else if str_includes (message error) ''proxy key'' then Inl error
               else if str_includes (message error) ''decrypt''
               then Inl (Error ''Failed to decrypt organization OpenAI key'')
               else Inl (Error ''Proxy request failed'')))"

text \<open>The value returned for a forwarded response.\<close>

definition forwarded :: "string \<Rightarrow> clock \<Rightarrow> verified_key \<Rightarrow> http_response \<Rightarrow> proxy_result" where
  "forwarded requestId clk key openaiResponse =
    \<lparr>proxy_success = True, error_text = None,
     response_data = data openaiResponse, statusCode = status openaiResponse,
     response_headers = headers openaiResponse, spendai_request_id = requestId,
     meta_organization_id = Some (verified_organization_id key),
     meta_project_id = Some (verified_project_id key),
     meta_proxy_key_id = Some (verified_id key),
     timestamp = Some (iso clk),
     openai_request_id =
       (case map_of (headers openaiResponse) ''x-request-id'' of
          None \<Rightarrow> None
        | Some v \<Rightarrow> if v = [] then None else Some v)\<rparr>"

text \<open>
  \<open>proxyChatCompletion\<close>. \<open>requestId\<close> is the identifier \<open>crypto.randomUUID()\<close>
  returned, and \<open>axios_post\<close> is the outbound call with its configuration: the
  response, or the error axios throws. The result is the value returned or the error
  thrown, the datastore afterwards, and the outbound calls made.
\<close>

definition proxyChatCompletion :: "config \<Rightarrow> faults \<Rightarrow> clock \<Rightarrow> string
    \<Rightarrow> (upstream_request \<Rightarrow> js_error + http_response)
    \<Rightarrow> string \<Rightarrow> chat_request \<Rightarrow> (string \<times> string) list \<Rightarrow> database
    \<Rightarrow> (js_error + proxy_result) \<times> database \<times> upstream_request list" where
  "proxyChatCompletion cfg F clk requestId axios_post proxyKey requestBody requestHeaders db =
    (case verifyProxyKey cfg F proxyKey db of
       Inl error \<Rightarrow> (proxy_catch requestId error, db, [])
     | Inr key \<Rightarrow>
        (case validateModel (request_model requestBody) of
           invalid text \<Rightarrow>
             (proxy_catch requestId
                \<lparr>message = text, code = Some ''INVALID_MODEL'', response = None\<rparr>, db, [])
         | valid \<Rightarrow>
            (case getOrganizationOpenAIKey cfg F (verified_organization_id key) db of
               Inl error \<Rightarrow> (proxy_catch requestId error, db, [])
             | Inr openaiApiKey \<Rightarrow>
                 let request =
                       \<lparr>url = ''https://api.openai.com/v1/chat/completions'',
                        body = requestBody,
                        request_headers = buildForwardHeaders requestHeaders openaiApiKey,
                        timeout = 60000\<rparr>
                 in (case axios_post request of
                       Inl error \<Rightarrow> (proxy_catch requestId error, db, [request])
                     | Inr openaiResponse \<Rightarrow>
                         let db' =
                               (if status openaiResponse = 200
                                then (case logFromOpenAIResponse F clk requestId
                                             (verified_organization_id key)
                                             (verified_project_id key) (verified_id key)
                                             (data openaiResponse) db of
                                        (Inl loggingError, db1) \<Rightarrow> db1
                                      | (Inr logged, db1) \<Rightarrow> db1)
                                else db)
                         in (Inr (forwarded requestId clk key openaiResponse), db', [request])))))"

text \<open>The same datastore failures, except that the insert into \<open>usage_logs\<close> never fails.\<close>

definition without_ledger_faults :: "faults \<Rightarrow> faults" where
  "without_ledger_faults F =
    (\<lambda>request. case request of insert_usage_log row \<Rightarrow> None | _ \<Rightarrow> F request)"

section \<open>Sample data\<close>

definition no_faults :: faults where
  "no_faults = (\<lambda>request. None)"

definition mid_march :: clock where
  "mid_march = \<lparr>now_ms = 1773568800000, iso = ''2026-03-15T10:00:00.000Z'',
                startOfMonth = 1772323200000\<rparr>"

definition sample_usage :: "string \<Rightarrow> string \<Rightarrow> string \<Rightarrow> rat \<Rightarrow> nat \<Rightarrow> usage_log" where
  "sample_usage rid org proj cost created =
    \<lparr>request_id = rid, log_organization_id = org, log_project_id = proj,
     log_proxy_key_id = ''key-1'', log_model = ''gpt-4'', provider = ''openai'',
     tokens_prompt = 1000, tokens_completion = 500, cost_usd = cost,
     price_prompt_per_million = Some 30, price_completion_per_million = Some 60,
     currency = ''USD'', log_status = ''success'', created_at = created\<rparr>"

definition sample_hmac :: "string \<Rightarrow> string \<Rightarrow> string" where
  "sample_hmac secret keyValue =
    (if keyValue = ''sk-spendai-good'' then ''c0ffee''
     else if keyValue = ''sk-spendai-old'' then ''decade''
     else ''00'')"

text \<open>A toy cipher: the ciphertext is the plaintext reversed, the tag is fixed.\<close>

definition sample_cfg :: config where
  "sample_cfg =
    \<lparr>PROXY_KEY_SECRET = Some ''pepper'',
     OPENAI_KEY_ENCRYPTION_SECRET =
       Some ''000102030405060708090a0b0c0d0e0f101112131415161718191a1b1c1d1e1f'',
     hmac_sha256_hex = sample_hmac,
     seal = (\<lambda>key iv plaintext. Some (rev plaintext, ''0123456789abcdef'')),
     unseal = (\<lambda>key iv tag ciphertext.
                if tag = ''0123456789abcdef'' then Some (rev ciphertext) else None)\<rparr>"

definition active_key :: proxy_key where
  "active_key =
    \<lparr>key_id = ''key-1'', key_organization_id = ''org-1'', key_project_id = ''proj-1'',
     key_value = ''c0ffee'', key_name = ''sk-****good'', is_active = True,
     key_created_by = ''user-1'', key_created_at = 1771581600000, revoked_at = None\<rparr>"

definition revoked_key :: proxy_key where
  "revoked_key =
    \<lparr>key_id = ''key-2'', key_organization_id = ''org-1'', key_project_id = ''proj-1'',
     key_value = ''decade'', key_name = ''sk-****-old'', is_active = False,
     key_created_by = ''user-1'', key_created_at = 1771581600000,
     revoked_at = Some ''2026-02-21T09:00:00.000Z''\<rparr>"

definition sample_db :: database where
  "sample_db =
    \<lparr>proxy_keys = [active_key, revoked_key],
     organizations =
       [\<lparr>org_id = ''org-1'', openai_api_key = Some ''sk-proj-legacy'',
         org_monthly_budget_usd = Some 10\<rparr>,
        \<lparr>org_id = ''org-2'', openai_api_key = None, org_monthly_budget_usd = None\<rparr>,
        \<lparr>org_id = ''org-3'', openai_api_key = Some [], org_monthly_budget_usd = None\<rparr>],
     projects =
       [\<lparr>proj_id = ''proj-1'', proj_organization_id = ''org-1'',
         proj_monthly_budget_usd = Some 0\<rparr>,
        \<lparr>proj_id = ''proj-2'', proj_organization_id = ''org-2'',
         proj_monthly_budget_usd = Some 5\<rparr>],
     usage_logs =
       [sample_usage ''req-1'' ''org-1'' ''proj-1'' (11/2) 1772445600000,
        sample_usage ''req-2'' ''org-2'' ''proj-2'' 100 1772445600000,
        sample_usage ''req-0'' ''org-1'' ''proj-1'' 7 1771581600000],
     alerts = []\<rparr>"

definition ledger_down :: faults where
  "ledger_down =
    (\<lambda>request. case request of
                  insert_usage_log row \<Rightarrow> Some (Error ''connection reset'')
                | _ \<Rightarrow> None)"

definition sample_response :: http_response where
  "sample_response =
    \<lparr>status = 200, headers = [(''x-request-id'', ''req_abc'')],
     data = \<lparr>body_model = Some ''gpt-4'',
             body_usage = Some \<lparr>prompt_tokens = Some 1000, completion_tokens = Some 500,
                                total_tokens = Some 1500\<rparr>,
             payload = ''chat.completion''\<rparr>\<rparr>"

definition sample_axios :: "upstream_request \<Rightarrow> js_error + http_response" where
  "sample_axios request = Inr sample_response"

definition sample_request :: "string \<Rightarrow> chat_request" where
  "sample_request modelName = \<lparr>request_model = Some modelName, messages = ''hello''\<rparr>"

definition half_spent :: alert_params where
  "half_spent =
    \<lparr>organization_id = ''org-1'', project_id = None, alert_level = organization_level,
     threshold_percent = 50, budget_amount = 10, actual_spend = 11/2\<rparr>"


section \<open>Properties of the pricing engine\<close>








section \<open>Properties of alert recording\<close>

lemma same_index_entry_key: "same_index_entry r x \<longleftrightarrow> alert_key x = alert_key r"
  by (auto simp: same_index_entry_def alert_key_def alert_scope_def split: option.splits)

lemma violates_unique_alert_key:
  "violates_unique_alert r tbl \<longleftrightarrow> alert_key r \<in> alert_key ` set tbl"
  unfolding violates_unique_alert_def list_ex_iff same_index_entry_key
  by (metis (no_types, lifting) image_iff)

lemma recordAlert_alerts:
  "alerts (snd (recordAlert F clk params db)) = alerts db
   \<or> (alert_key (alert_row clk params) \<notin> alert_key ` set (alerts db)
      \<and> alerts (snd (recordAlert F clk params db)) = alerts db @ [alert_row clk params])"
  by (simp add: recordAlert_def db_insert_alert_def violates_unique_alert_key split: option.splits)

lemma recordAlert_keeps_unique:
  assumes "distinct (map alert_key (alerts db))"
  shows "distinct (map alert_key (alerts (snd (recordAlert F clk params db))))"
  using recordAlert_alerts [of F clk params db] assms by auto

lemma recordAlert_calls_keep_unique:
  "distinct (map alert_key (alerts db)) \<Longrightarrow>
   distinct (map alert_key (alerts (recordAlert_calls calls db)))"
proof (induction calls arbitrary: db)
  case Nil
  then show ?case by simp
next
  case (Cons call calls)
  obtain F clk params where call: "call = (F, clk, params)" by (cases call)
  from Cons.prems have "distinct (map alert_key (alerts (snd (recordAlert F clk params db))))"
    by (rule recordAlert_keeps_unique)
  then show ?case unfolding call by (simp add: Cons.IH)
qed

lemma distinct_map_at_most_one:
  "distinct (map f xs) \<Longrightarrow> length (filter (\<lambda>r. f r = k) xs) \<le> 1"
  by (induction xs) (auto simp: filter_empty_conv image_iff)

text \<open>
  C2: the uniqueness constraint holds of the alert table to begin with (it is created
  with the table). Then after any sequence of \<open>recordAlert\<close> calls every
  (scope, threshold, period) triple has at most one row; an insert that meets an
  existing row of its triple is answered with error 23505; and a \<open>recordAlert\<close>
  call whose insert is answered with 23505 returns success (\<open>already_sent\<close>) and
  leaves the datastore as it was.
\<close>

theorem recordAlert_at_most_one_per_key:
  assumes "distinct (map alert_key (alerts db))"
  shows "length (filter (\<lambda>r. alert_key r = k) (alerts (recordAlert_calls calls db))) \<le> 1
       \<and> (F (insert_alert (alert_row clk params)) = None
            \<and> alert_key (alert_row clk params) \<in> alert_key ` set (alerts db)
          \<longrightarrow> fst (db_insert_alert F (alert_row clk params) db) = Inl unique_violation)
       \<and> (\<forall>e. fst (db_insert_alert F (alert_row clk params) db) = Inl e \<and> code e = Some ''23505''
          \<longrightarrow> recordAlert F clk params db = (already_sent, db)
              \<and> success (fst (recordAlert F clk params db)))"
proof (intro conjI)
  show "length (filter (\<lambda>r. alert_key r = k) (alerts (recordAlert_calls calls db))) \<le> 1"
    using assms by (intro distinct_map_at_most_one recordAlert_calls_keep_unique)
next
  show "F (insert_alert (alert_row clk params)) = None
            \<and> alert_key (alert_row clk params) \<in> alert_key ` set (alerts db)
          \<longrightarrow> fst (db_insert_alert F (alert_row clk params) db) = Inl unique_violation"
    by (simp add: db_insert_alert_def violates_unique_alert_key)
next
  show "\<forall>e. fst (db_insert_alert F (alert_row clk params) db) = Inl e \<and> code e = Some ''23505''
          \<longrightarrow> recordAlert F clk params db = (already_sent, db)
              \<and> success (fst (recordAlert F clk params db))"
    by (auto simp: recordAlert_def db_insert_alert_def split: option.splits if_splits)
qed

theorem recordAlert_at_most_one_per_key_witness:
  "distinct (map alert_key (alerts (sample_db\<lparr>alerts := [alert_row mid_march half_spent]\<rparr>)))
   \<and> length (filter (\<lambda>r. alert_key r = (organization_scope ''org-1'', 50, ''2026-03''))
         (alerts (recordAlert_calls [(no_faults, mid_march, half_spent), (no_faults, mid_march, half_spent)]
            (sample_db\<lparr>alerts := [alert_row mid_march half_spent]\<rparr>)))) \<le> 1
   \<and> fst (db_insert_alert no_faults (alert_row mid_march half_spent)
           (sample_db\<lparr>alerts := [alert_row mid_march half_spent]\<rparr>)) = Inl unique_violation
   \<and> recordAlert no_faults mid_march half_spent (sample_db\<lparr>alerts := [alert_row mid_march half_spent]\<rparr>)
       = (already_sent, sample_db\<lparr>alerts := [alert_row mid_march half_spent]\<rparr>)"
proof -
  let ?db = "sample_db\<lparr>alerts := [alert_row mid_march half_spent]\<rparr>"
  have h: "distinct (map alert_key (alerts ?db))" by simp
  have f: "no_faults (insert_alert (alert_row mid_march half_spent)) = None"
    by (simp add: no_faults_def)
  have m: "alert_key (alert_row mid_march half_spent) \<in> alert_key ` set (alerts ?db)" by simp
  have c: "code unique_violation = Some ''23505''" by (simp add: unique_violation_def)
  note t = recordAlert_at_most_one_per_key [OF h,
      of "(organization_scope ''org-1'', 50, ''2026-03'')"
         "[(no_faults, mid_march, half_spent), (no_faults, mid_march, half_spent)]"
         no_faults mid_march half_spent]
  from t f m have v: "fst (db_insert_alert no_faults (alert_row mid_march half_spent) ?db) = Inl unique_violation"
    by blast
  from t v c have "recordAlert no_faults mid_march half_spent ?db = (already_sent, ?db)"
    by blast
  with t h v show ?thesis by blast
qed


section \<open>Properties of budget evaluation\<close>





lemma single_Inr: "single rows = Inr r \<Longrightarrow> rows = [r]"
  by (auto simp: single_def split: list.splits)

lemma single_filter_Inr:
  "single (filter P rows) = Inr r \<Longrightarrow> r \<in> set rows \<and> P r"
proof -
  assume "single (filter P rows) = Inr r"
  then have "filter P rows = [r]" by (rule single_Inr)
  then have "r \<in> set (filter P rows)" by simp
  then show ?thesis by simp
qed

lemma recordAlert_appends:
  "alerts (snd (recordAlert F clk params db)) = alerts db
   \<or> alerts (snd (recordAlert F clk params db)) = alerts db @ [alert_row clk params]"
  by (simp add: recordAlert_def db_insert_alert_def split: option.splits)

lemma recordAlert_other_tables:
  "organizations (snd (recordAlert F clk params db)) = organizations db"
  "projects (snd (recordAlert F clk params db)) = projects db"
  "usage_logs (snd (recordAlert F clk params db)) = usage_logs db"
  "proxy_keys (snd (recordAlert F clk params db)) = proxy_keys db"
  by (simp_all add: recordAlert_def db_insert_alert_def split: option.splits)

lemma evaluate_loop_level:
  "c \<in> set (fst (evaluate_loop F clk params pct ts db)) \<Longrightarrow>
     alert_level c = alert_level params \<and> organization_id c = organization_id params
     \<and> project_id c = project_id params"
  by (induction ts) (auto simp: threshold_alert_def split: if_splits)

lemma evaluate_loop_alerts:
  "filter (\<lambda>r. alert_level r \<noteq> alert_level params) (alerts (snd (evaluate_loop F clk params pct ts db)))
   = filter (\<lambda>r. alert_level r \<noteq> alert_level params) (alerts db)"
proof (induction ts)
  case Nil
  then show ?case by simp
next
  case (Cons t ts)
  have "alert_level (alert_row clk (threshold_alert params t)) = alert_level params"
    by (simp add: alert_row_def threshold_alert_def)
  then show ?case
    using Cons recordAlert_appends [of F clk "threshold_alert params t" db]
    by auto
qed

lemma evaluateThresholds_level:
  "c \<in> set (fst (evaluateThresholds F clk params db)) \<Longrightarrow> alert_level c = alert_level params"
  unfolding evaluateThresholds_def by (drule evaluate_loop_level) simp

lemma evaluateThresholds_alerts:
  "filter (\<lambda>r. alert_level r \<noteq> alert_level params) (alerts (snd (evaluateThresholds F clk params db)))
   = filter (\<lambda>r. alert_level r \<noteq> alert_level params) (alerts db)"
  unfolding evaluateThresholds_def by (rule evaluate_loop_alerts)

lemma getOrgBudget_row:
  "getOrgBudget F clk organizationId db = Inr (b, s) \<Longrightarrow>
     \<exists>org \<in> set (organizations db). org_id org = organizationId \<and> org_monthly_budget_usd org = b"
  by (auto simp: getOrgBudget_def split: option.splits sum.splits dest!: single_filter_Inr)

lemma getProjectBudget_row:
  "getProjectBudget F clk projectId db = Inr (b, s) \<Longrightarrow>
     \<exists>p \<in> set (projects db). proj_id p = projectId \<and> proj_monthly_budget_usd p = b"
  by (auto simp: getProjectBudget_def split: option.splits sum.splits dest!: single_filter_Inr)


lemma evaluate_loop_other_tables:
  "organizations (snd (evaluate_loop F clk params pct ts db)) = organizations db"
  "projects (snd (evaluate_loop F clk params pct ts db)) = projects db"
  "usage_logs (snd (evaluate_loop F clk params pct ts db)) = usage_logs db"
  by (induction ts) (simp_all add: recordAlert_other_tables)

lemma evaluateThresholds_other_tables:
  "organizations (snd (evaluateThresholds F clk params db)) = organizations db"
  "projects (snd (evaluateThresholds F clk params db)) = projects db"
  "usage_logs (snd (evaluateThresholds F clk params db)) = usage_logs db"
  by (simp_all add: evaluateThresholds_def evaluate_loop_other_tables)

lemma level_cases:
  "(l \<noteq> project_level) = (l = organization_level)"
  "(l \<noteq> organization_level) = (l = project_level)"
  by (cases l; simp)+

lemma checkBudgets_steps:
  "checkBudgets F clk organizationId projectId db =
    (case getOrgBudget F clk organizationId db of
       Inl error \<Rightarrow> ([], db)
     | Inr (orgBudget, orgSpend) \<Rightarrow>
        (case organization_step F clk organizationId orgBudget orgSpend db of
           (calls1, db1) \<Rightarrow>
             (case getProjectBudget F clk projectId db1 of
                Inl error \<Rightarrow> (calls1, db1)
              | Inr (projectBudget, projectSpend) \<Rightarrow>
                 (case project_step F clk organizationId projectId projectBudget projectSpend db1 of
                    (calls2, db2) \<Rightarrow> (calls1 @ calls2, db2)))))"
  unfolding checkBudgets_def organization_step_def project_step_def by (rule refl)

lemma organization_step_facts:
  "c \<in> set (fst (organization_step F clk organizationId b s db)) \<Longrightarrow> alert_level c = organization_level \<and> (\<exists>x. b = Some x \<and> 0 < x)"
  "filter (\<lambda>r. alert_level r = project_level) (alerts (snd (organization_step F clk organizationId b s db)))
     = filter (\<lambda>r. alert_level r = project_level) (alerts db)"
  "(\<forall>x. b = Some x \<longrightarrow> x \<le> 0) \<Longrightarrow> organization_step F clk organizationId b s db = ([], db)"
  "projects (snd (organization_step F clk organizationId b s db)) = projects db"
  using evaluateThresholds_alerts [of "\<lparr>organization_id = organizationId, project_id = None,
                           alert_level = organization_level,
                           budget = the b, actual = s\<rparr>" F clk db]
  by (auto simp: organization_step_def level_cases evaluateThresholds_other_tables split: option.splits if_splits dest: evaluateThresholds_level)

lemma project_step_facts:
  "c \<in> set (fst (project_step F clk organizationId projectId b s db)) \<Longrightarrow> alert_level c = project_level \<and> (\<exists>x. b = Some x \<and> 0 < x)"
  "filter (\<lambda>r. alert_level r = organization_level) (alerts (snd (project_step F clk organizationId projectId b s db)))
     = filter (\<lambda>r. alert_level r = organization_level) (alerts db)"
  "(\<forall>x. b = Some x \<longrightarrow> x \<le> 0) \<Longrightarrow> project_step F clk organizationId projectId b s db = ([], db)"
  using evaluateThresholds_alerts [of "\<lparr>organization_id = organizationId, project_id = Some projectId,
                           alert_level = project_level,
                           budget = the b, actual = s\<rparr>" F clk db]
  by (auto simp: project_step_def level_cases split: option.splits if_splits dest: evaluateThresholds_level)

text \<open>
  C10: when the organization's monthly ceiling is \<open>null\<close>, absent or not greater than
  0, \<open>checkBudgets\<close> makes no \<open>recordAlert\<close> call for the organization scope and
  leaves the organization-level alerts as they were, whatever the spend; and the same
  for the project and its ceiling.
\<close>

theorem checkBudgets_skips_unset_ceiling:
  "((\<forall>org \<in> set (organizations db). org_id org = organizationId \<longrightarrow>
        (\<forall>b. org_monthly_budget_usd org = Some b \<longrightarrow> b \<le> 0))
     \<longrightarrow> (\<forall>c \<in> set (fst (checkBudgets F clk organizationId projectId db)).
            alert_level c \<noteq> organization_level)
         \<and> filter (\<lambda>r. alert_level r = organization_level)
               (alerts (snd (checkBudgets F clk organizationId projectId db)))
             = filter (\<lambda>r. alert_level r = organization_level) (alerts db))
   \<and> ((\<forall>p \<in> set (projects db). proj_id p = projectId \<longrightarrow>
        (\<forall>b. proj_monthly_budget_usd p = Some b \<longrightarrow> b \<le> 0))
     \<longrightarrow> (\<forall>c \<in> set (fst (checkBudgets F clk organizationId projectId db)).
            alert_level c \<noteq> project_level)
         \<and> filter (\<lambda>r. alert_level r = project_level)
               (alerts (snd (checkBudgets F clk organizationId projectId db)))
             = filter (\<lambda>r. alert_level r = project_level) (alerts db))"
proof (intro conjI impI)
  assume unset: "\<forall>org \<in> set (organizations db). org_id org = organizationId \<longrightarrow>
        (\<forall>b. org_monthly_budget_usd org = Some b \<longrightarrow> b \<le> 0)"
  have skip: "organization_step F clk organizationId b s db = ([], db)"
    if "getOrgBudget F clk organizationId db = Inr (b, s)" for b s
    using getOrgBudget_row [OF that] unset by (intro organization_step_facts(3)) auto
  show "\<forall>c \<in> set (fst (checkBudgets F clk organizationId projectId db)).
            alert_level c \<noteq> organization_level"
    by (auto simp: checkBudgets_steps skip split: sum.splits prod.splits
             dest: project_step_facts(1) [where c = c for c, THEN conjunct1, of _ F clk organizationId projectId])
  show "filter (\<lambda>r. alert_level r = organization_level)
               (alerts (snd (checkBudgets F clk organizationId projectId db)))
             = filter (\<lambda>r. alert_level r = organization_level) (alerts db)"
    using project_step_facts(2) [of  F clk organizationId projectId _ _ db]
    by (auto simp: checkBudgets_steps skip split: sum.splits prod.splits)
next
  assume unset: "\<forall>p \<in> set (projects db). proj_id p = projectId \<longrightarrow>
        (\<forall>b. proj_monthly_budget_usd p = Some b \<longrightarrow> b \<le> 0)"
  have skip: "project_step F clk organizationId projectId b s db1 = ([], db1)"
    if "getProjectBudget F clk projectId db1 = Inr (b, s)" "projects db1 = projects db" for b s db1
    using getProjectBudget_row [OF that(1)] unset that(2) by (intro project_step_facts(3)) auto
  have tables: "projects db1 = projects db"
    if "organization_step F clk organizationId b s db = (calls1, db1)" for b s calls1 db1
    using organization_step_facts(4) [of F clk organizationId b s db] that by simp
  show "\<forall>c \<in> set (fst (checkBudgets F clk organizationId projectId db)).
            alert_level c \<noteq> project_level"
  proof
    fix c assume c: "c \<in> set (fst (checkBudgets F clk organizationId projectId db))"
    show "alert_level c \<noteq> project_level"
    proof (cases "getOrgBudget F clk organizationId db")
      case (Inl e)
      with c show ?thesis by (simp add: checkBudgets_steps)
    next
      case (Inr bs)
      obtain b s where bs: "bs = (b, s)" by (cases bs)
      obtain calls1 db1 where step: "organization_step F clk organizationId b s db = (calls1, db1)"
        by (cases "organization_step F clk organizationId b s db")
      have "fst (checkBudgets F clk organizationId projectId db) = calls1"
        using Inr bs step skip [OF _ tables [OF step]]
        by (auto simp: checkBudgets_steps split: sum.splits prod.splits)
      with c have "c \<in> set (fst (organization_step F clk organizationId b s db))"
        by (simp add: step)
      then show ?thesis
        by (auto dest: organization_step_facts(1))
    qed
  qed
  show "filter (\<lambda>r. alert_level r = project_level)
               (alerts (snd (checkBudgets F clk organizationId projectId db)))
             = filter (\<lambda>r. alert_level r = project_level) (alerts db)"
  proof (cases "getOrgBudget F clk organizationId db")
    case (Inl e)
    then show ?thesis by (simp add: checkBudgets_steps)
  next
    case (Inr bs)
    obtain b s where bs: "bs = (b, s)" by (cases bs)
    obtain calls1 db1 where step: "organization_step F clk organizationId b s db = (calls1, db1)"
      by (cases "organization_step F clk organizationId b s db")
    have "snd (checkBudgets F clk organizationId projectId db) = db1"
      using Inr bs step skip [OF _ tables [OF step]]
      by (auto simp: checkBudgets_steps split: sum.splits prod.splits)
    then show ?thesis
      using organization_step_facts(2) [of F clk organizationId b s db] by (simp add: step)
  qed
qed

theorem checkBudgets_skips_unset_ceiling_witness:
  "map org_monthly_budget_usd (filter (\<lambda>r. org_id r = ''org-2'') (organizations sample_db)) = [None]
   \<and> map proj_monthly_budget_usd (filter (\<lambda>r. proj_id r = ''proj-1'') (projects sample_db)) = [Some 0]
   \<and> calculateMTDSpend no_faults mid_march ''org-2'' None sample_db = Inr 100
   \<and> fst (checkBudgets no_faults mid_march ''org-2'' ''proj-1'' sample_db) = []
   \<and> alerts (snd (checkBudgets no_faults mid_march ''org-2'' ''proj-1'' sample_db)) = alerts sample_db"
proof -
  have ob: "map org_monthly_budget_usd (filter (\<lambda>r. org_id r = ''org-2'') (organizations sample_db)) = [None]"
    by (simp add: sample_db_def)
  have pb: "map proj_monthly_budget_usd (filter (\<lambda>r. proj_id r = ''proj-1'') (projects sample_db)) = [Some 0]"
    by (simp add: sample_db_def)
  have o: "\<forall>org \<in> set (organizations sample_db). org_id org = ''org-2'' \<longrightarrow>
        (\<forall>b. org_monthly_budget_usd org = Some b \<longrightarrow> b \<le> 0)"
    by (simp add: sample_db_def)
  have p: "\<forall>p \<in> set (projects sample_db). proj_id p = ''proj-1'' \<longrightarrow>
        (\<forall>b. proj_monthly_budget_usd p = Some b \<longrightarrow> b \<le> 0)"
    by (simp add: sample_db_def)
  have s: "calculateMTDSpend no_faults mid_march ''org-2'' None sample_db = Inr 100"
    by (simp add: calculateMTDSpend_def no_faults_def sample_db_def sample_usage_def mid_march_def)
  note t = checkBudgets_skips_unset_ceiling [where db = sample_db and organizationId = "''org-2''"
      and F = no_faults and clk = mid_march and projectId = "''proj-1''"]
  from t o p have calls: "\<forall>c \<in> set (fst (checkBudgets no_faults mid_march ''org-2'' ''proj-1'' sample_db)).
            alert_level c \<noteq> organization_level \<and> alert_level c \<noteq> project_level"
    by blast
  have none: "fst (checkBudgets no_faults mid_march ''org-2'' ''proj-1'' sample_db) = []"
  proof (cases "fst (checkBudgets no_faults mid_march ''org-2'' ''proj-1'' sample_db)")
    case Nil
    then show ?thesis .
  next
    case (Cons c cs)
    with calls have "alert_level c \<noteq> organization_level \<and> alert_level c \<noteq> project_level"
      by simp
    then show ?thesis by (cases "alert_level c") simp_all
  qed
  from t o p have "filter (\<lambda>r. alert_level r = organization_level)
               (alerts (snd (checkBudgets no_faults mid_march ''org-2'' ''proj-1'' sample_db)))
             = filter (\<lambda>r. alert_level r = organization_level) (alerts sample_db)
     \<and> filter (\<lambda>r. alert_level r = project_level)
               (alerts (snd (checkBudgets no_faults mid_march ''org-2'' ''proj-1'' sample_db)))
             = filter (\<lambda>r. alert_level r = project_level) (alerts sample_db)"
    by blast
  then have "\<forall>r \<in> set (alerts (snd (checkBudgets no_faults mid_march ''org-2'' ''proj-1'' sample_db))).
      alert_level r \<noteq> organization_level \<and> alert_level r \<noteq> project_level"
    by (simp add: sample_db_def filter_empty_conv)
  then have a: "alerts (snd (checkBudgets no_faults mid_march ''org-2'' ''proj-1'' sample_db)) = alerts sample_db"
    by (cases "alerts (snd (checkBudgets no_faults mid_march ''org-2'' ''proj-1'' sample_db))")
       (auto simp: sample_db_def level_cases)
  from ob pb s none a show ?thesis by blast
qed


section \<open>Properties of proxy keys\<close>

lemma find_matching_key_None:
  "find_matching_key h keys = None \<longleftrightarrow> (\<forall>key \<in> set keys. from_hex (key_value key) \<noteq> h)"
  by (induction keys) (auto simp: Let_def)

lemma find_matching_key_Some:
  "find_matching_key h keys = Some key \<Longrightarrow> key \<in> set keys \<and> from_hex (key_value key) = h"
  by (induction keys) (auto simp: Let_def split: if_splits)

text \<open>
  C4: whenever \<open>verifyProxyKey\<close> fails, the error it throws is the one generic
  \<open>Invalid or revoked proxy key\<close>, whatever the cause: this is so for every failure, in
  particular when the lookup of the active keys fails, and when no active key carries
  the hash of the provided secret (an unknown secret, or one that only a revoked or
  inactive key matches).
\<close>

theorem verifyProxyKey_generic_failure:
  "(\<forall>error. verifyProxyKey cfg F keyValue db = Inl error
        \<longrightarrow> error = Error ''Invalid or revoked proxy key'')
   \<and> (F select_active_proxy_keys \<noteq> None
        \<longrightarrow> verifyProxyKey cfg F keyValue db = Inl (Error ''Invalid or revoked proxy key''))
   \<and> ((\<forall>keyHash. hashKeyValue cfg keyValue = Inr keyHash \<longrightarrow>
          (\<forall>key \<in> set (proxy_keys db). is_active key \<longrightarrow> from_hex (key_value key) \<noteq> from_hex keyHash))
        \<longrightarrow> verifyProxyKey cfg F keyValue db = Inl (Error ''Invalid or revoked proxy key''))"
proof (intro conjI allI impI)
  fix error
  assume "verifyProxyKey cfg F keyValue db = Inl error"
  then show "error = Error ''Invalid or revoked proxy key''"
    by (auto simp: verifyProxyKey_def split: sum.splits)
next
  assume "F select_active_proxy_keys \<noteq> None"
  then have "\<exists>error. verifyProxyKey_try cfg F keyValue db = Inl error"
    by (auto simp: verifyProxyKey_try_def split: sum.splits)
  then show "verifyProxyKey cfg F keyValue db = Inl (Error ''Invalid or revoked proxy key'')"
    by (auto simp: verifyProxyKey_def)
next
  assume none: "\<forall>keyHash. hashKeyValue cfg keyValue = Inr keyHash \<longrightarrow>
          (\<forall>key \<in> set (proxy_keys db). is_active key \<longrightarrow> from_hex (key_value key) \<noteq> from_hex keyHash)"
  have "\<exists>error. verifyProxyKey_try cfg F keyValue db = Inl error"
  proof (cases "hashKeyValue cfg keyValue")
    case (Inl e)
    then show ?thesis by (simp add: verifyProxyKey_try_def)
  next
    case (Inr keyHash)
    with none have "find_matching_key (from_hex keyHash) (filter is_active (proxy_keys db)) = None"
      by (simp add: find_matching_key_None)
    with Inr show ?thesis
      by (simp add: verifyProxyKey_try_def Let_def split: option.splits)
  qed
  then show "verifyProxyKey cfg F keyValue db = Inl (Error ''Invalid or revoked proxy key'')"
    by (auto simp: verifyProxyKey_def)
qed

theorem verifyProxyKey_generic_failure_witness:
  "hashKeyValue sample_cfg ''sk-spendai-old'' = Inr (key_value revoked_key)
   \<and> verifyProxyKey sample_cfg no_faults ''sk-spendai-old'' sample_db
       = Inl (Error ''Invalid or revoked proxy key'')
   \<and> verifyProxyKey sample_cfg (no_faults(select_active_proxy_keys := Some (Error ''connection reset'')))
         ''sk-spendai-good'' sample_db
       = Inl (Error ''Invalid or revoked proxy key'')
   \<and> verifyProxyKey sample_cfg no_faults ''sk-spendai-good'' sample_db
       = Inr \<lparr>verified_id = ''key-1'', verified_organization_id = ''org-1'',
              verified_project_id = ''proj-1'', verified_is_active = True\<rparr>"
proof -
  have h: "hashKeyValue sample_cfg ''sk-spendai-old'' = Inr (key_value revoked_key)"
    by (simp add: hashKeyValue_def getServerSecret_def sample_cfg_def sample_hmac_def revoked_key_def)
  have d: "from_hex ''c0ffee'' \<noteq> from_hex ''decade''"
    by (simp add: hex_value_def)
  have n: "\<forall>keyHash. hashKeyValue sample_cfg ''sk-spendai-old'' = Inr keyHash \<longrightarrow>
          (\<forall>key \<in> set (proxy_keys sample_db). is_active key \<longrightarrow> from_hex (key_value key) \<noteq> from_hex keyHash)"
    using d by (simp add: h sample_db_def active_key_def revoked_key_def)
  have f: "(no_faults(select_active_proxy_keys := Some (Error ''connection reset''))) select_active_proxy_keys \<noteq> None"
    by simp
  have a: "verifyProxyKey sample_cfg no_faults ''sk-spendai-old'' sample_db
       = Inl (Error ''Invalid or revoked proxy key'')"
    using verifyProxyKey_generic_failure [of sample_cfg no_faults "''sk-spendai-old''" sample_db] n
    by blast
  have b: "verifyProxyKey sample_cfg (no_faults(select_active_proxy_keys := Some (Error ''connection reset'')))
         ''sk-spendai-good'' sample_db
       = Inl (Error ''Invalid or revoked proxy key'')"
    using verifyProxyKey_generic_failure [of sample_cfg
        "no_faults(select_active_proxy_keys := Some (Error ''connection reset''))"
        "''sk-spendai-good''" sample_db] f
    by blast
  have c: "verifyProxyKey sample_cfg no_faults ''sk-spendai-good'' sample_db
       = Inr \<lparr>verified_id = ''key-1'', verified_organization_id = ''org-1'',
              verified_project_id = ''proj-1'', verified_is_active = True\<rparr>"
    by (simp add: verifyProxyKey_def verifyProxyKey_try_def hashKeyValue_def getServerSecret_def
        sample_cfg_def sample_hmac_def no_faults_def sample_db_def active_key_def revoked_key_def)
  from h a b c show ?thesis by blast
qed

lemma verifyProxyKey_Inr:
  assumes "verifyProxyKey cfg F keyValue db = Inr v"
  shows "\<exists>key \<in> set (proxy_keys db). is_active key \<and> key_id key = verified_id v
           \<and> key_organization_id key = verified_organization_id v
           \<and> key_project_id key = verified_project_id v"
proof -
  from assms have "verifyProxyKey_try cfg F keyValue db = Inr v"
    by (simp add: verifyProxyKey_def split: sum.splits)
  then obtain keyHash key where
    "find_matching_key (from_hex keyHash) (filter is_active (proxy_keys db)) = Some key"
    and v: "v = \<lparr>verified_id = key_id key,
                  verified_organization_id = key_organization_id key,
                  verified_project_id = key_project_id key,
                  verified_is_active = is_active key\<rparr>"
    by (auto simp: verifyProxyKey_try_def Let_def split: sum.splits option.splits if_splits)
  then have "key \<in> set (filter is_active (proxy_keys db))"
    by (auto dest: find_matching_key_Some)
  with v show ?thesis by auto
qed


lemma filter_map_preserved:
  "(\<And>x. P (f x) = P x) \<Longrightarrow> filter P (map f xs) = map f (filter P xs)"
  by (induction xs) simp_all

lemma revoked_row_fields:
  "key_id (revoked_row clk k) = key_id k"
  "key_organization_id (revoked_row clk k) = key_organization_id k"
  "\<not> is_active (revoked_row clk k)"
  "revoked_at (revoked_row clk k) = Some (iso clk)"
  by (simp_all add: revoked_row_def)

lemma updated_hits:
  "filter (\<lambda>k. key_id k = keyId \<and> key_organization_id k = organizationId)
     (map (\<lambda>k. if key_id k = keyId \<and> key_organization_id k = organizationId
               then revoked_row clk k else k) xs)
   = map (revoked_row clk)
       (filter (\<lambda>k. key_id k = keyId \<and> key_organization_id k = organizationId) xs)"
  by (induction xs) (simp_all add: revoked_row_fields)

lemma revokeProxyKey_unfold:
  "revokeProxyKey F clk keyId organizationId db =
    (let failed = (\<lambda>error. if code error = Some ''PGRST116'' then Error ''Proxy key not found''
                            else Error (''Failed to revoke proxy key: '' @ message error));
         db' = db\<lparr>proxy_keys := map (\<lambda>k. if key_id k = keyId \<and> key_organization_id k = organizationId
                                        then revoked_row clk k else k) (proxy_keys db)\<rparr>
     in case F (update_proxy_key_revoked keyId organizationId) of
          Some error \<Rightarrow> (Inl (failed error), db)
        | None \<Rightarrow>
           (case single (map (revoked_row clk)
                   (filter (\<lambda>k. key_id k = keyId \<and> key_organization_id k = organizationId)
                      (proxy_keys db))) of
              Inl error \<Rightarrow> (Inl (failed error), db')
            | Inr row \<Rightarrow> (Inr row, db')))"
  unfolding revokeProxyKey_def Let_def revoked_row_def [symmetric] updated_hits
  by (rule refl)

lemma revokeProxyKey_table:
  "proxy_keys (snd (revokeProxyKey F clk keyId organizationId db)) = proxy_keys db
   \<or> proxy_keys (snd (revokeProxyKey F clk keyId organizationId db))
       = map (\<lambda>k. if key_id k = keyId \<and> key_organization_id k = organizationId
                   then revoked_row clk k else k) (proxy_keys db)"
  by (simp add: revokeProxyKey_unfold Let_def split: option.splits sum.splits)

lemma revokeProxyKey_result:
  assumes "revokeProxyKey F clk keyId organizationId db = (Inr row, db')"
  shows "\<not> is_active row \<and> revoked_at row = Some (iso clk) \<and> key_id row = keyId
         \<and> key_organization_id row = organizationId \<and> row \<in> set (proxy_keys db')"
proof -
  let ?hit = "\<lambda>k. key_id k = keyId \<and> key_organization_id k = organizationId"
  let ?updated = "map (\<lambda>k. if ?hit k then revoked_row clk k else k) (proxy_keys db)"
  from assms have s: "single (map (revoked_row clk) (filter ?hit (proxy_keys db))) = Inr row"
    and d: "proxy_keys db' = ?updated"
    by (auto simp: revokeProxyKey_unfold Let_def split: option.splits sum.splits)
  from s have m: "map (revoked_row clk) (filter ?hit (proxy_keys db)) = [row]"
    by (rule single_Inr)
  then obtain k where k: "filter ?hit (proxy_keys db) = [k]" "row = revoked_row clk k"
    by (auto simp: map_eq_Cons_conv)
  from k(1) have "k \<in> set (filter ?hit (proxy_keys db))" by simp
  then have hit: "?hit k" by simp
  from m have "filter ?hit ?updated = [row]" by (simp only: updated_hits)
  then have "row \<in> set (filter ?hit ?updated)" by simp
  then have "row \<in> set ?updated" by (rule subsetD [OF filter_is_subset])
  then have "row \<in> set (proxy_keys db')" by (simp only: d)
  with hit k(2) show ?thesis by (simp add: revoked_row_fields)
qed

lemma revoked_in_map:
  assumes "revoked_in i db"
    and "proxy_keys db' = map (\<lambda>k. if P k then revoked_row clk k else k) (proxy_keys db)"
  shows "revoked_in i db'"
proof -
  from assms(1) obtain k where k: "k \<in> set (proxy_keys db)" "key_id k = i"
    by (auto simp: revoked_in_def list_ex_iff)
  then have "(if P k then revoked_row clk k else k) \<in> set (proxy_keys db')"
    by (simp add: assms(2))
  moreover have "key_id (if P k then revoked_row clk k else k) = i"
    using k by (simp add: revoked_row_fields)
  ultimately have ex: "list_ex (\<lambda>k. key_id k = i) (proxy_keys db')"
    unfolding list_ex_iff by blast
  have "\<not> is_active x" if "x \<in> set (proxy_keys db')" "key_id x = i" for x
  proof -
    from that(1) obtain y where y: "y \<in> set (proxy_keys db)"
      "x = (if P y then revoked_row clk y else y)"
      by (auto simp: assms(2))
    show ?thesis
    proof (cases "P y")
      case True
      with y show ?thesis by (simp add: revoked_row_fields)
    next
      case False
      with y that(2) assms(1) show ?thesis
        by (auto simp: revoked_in_def list_all_iff)
    qed
  qed
  with ex show ?thesis by (auto simp: revoked_in_def list_all_iff)
qed

lemma revoked_in_same_table:
  "revoked_in i db \<Longrightarrow> proxy_keys db' = proxy_keys db \<Longrightarrow> revoked_in i db'"
  by (simp add: revoked_in_def)

lemma revoked_in_revoke:
  assumes "revoked_in i db"
  shows "revoked_in i (snd (revokeProxyKey F clk keyId organizationId db))"
proof -
  from revokeProxyKey_table [of F clk keyId organizationId db] show ?thesis
  proof
    assume "proxy_keys (snd (revokeProxyKey F clk keyId organizationId db)) = proxy_keys db"
    with assms show ?thesis by (rule revoked_in_same_table)
  next
    assume "proxy_keys (snd (revokeProxyKey F clk keyId organizationId db))
       = map (\<lambda>k. if key_id k = keyId \<and> key_organization_id k = organizationId
                   then revoked_row clk k else k) (proxy_keys db)"
    with assms show ?thesis by (rule revoked_in_map)
  qed
qed

lemma revoked_in_create:
  assumes "revoked_in i db"
  shows "revoked_in i (snd (createProxyKey cfg F clk randomBytes newId organizationId projectId userId name db))"
  using assms
  by (auto simp: createProxyKey_def revoked_in_def list_ex_iff list_all_iff Let_def
           split: sum.splits option.splits)

lemma revoked_in_operation:
  "revoked_in i db \<Longrightarrow> revoked_in i (apply_key_operation cfg operation db)"
  by (cases operation) (simp_all add: revoked_in_revoke revoked_in_create)

lemma revoked_in_operations:
  "revoked_in i db \<Longrightarrow> revoked_in i (apply_key_operations cfg operations db)"
  by (induction operations arbitrary: db) (simp_all add: revoked_in_operation)

lemma revokeProxyKey_again:
  assumes "F (update_proxy_key_revoked keyId organizationId) = None"
    and "filter (\<lambda>k. key_id k = keyId \<and> key_organization_id k = organizationId) (proxy_keys db) = [k]"
    and "\<not> is_active k"
  shows "revokeProxyKey F clk keyId organizationId db =
     (Inr (k\<lparr>revoked_at := Some (iso clk)\<rparr>),
      db\<lparr>proxy_keys := map (\<lambda>x. if key_id x = keyId \<and> key_organization_id x = organizationId
                                then revoked_row clk x else x) (proxy_keys db)\<rparr>)"
proof -
  have "revoked_row clk k = k\<lparr>revoked_at := Some (iso clk)\<rparr>"
    using assms(3) by (simp add: revoked_row_def)
  then show ?thesis
    using assms(1) by (simp add: revokeProxyKey_unfold assms(2) single_def)
qed


lemma revoked_rows_only_revoked_at:
  assumes "filter P xs = [k]" "\<not> is_active k"
  shows "map (\<lambda>x. if P x then revoked_row clk x else x) xs
       = map (\<lambda>x. if P x then x\<lparr>revoked_at := Some (iso clk)\<rparr> else x) xs"
proof (rule map_cong [OF refl])
  fix x assume "x \<in> set xs"
  show "(if P x then revoked_row clk x else x) = (if P x then x\<lparr>revoked_at := Some (iso clk)\<rparr> else x)"
  proof (cases "P x")
    case True
    with \<open>x \<in> set xs\<close> have "x \<in> set (filter P xs)" by simp
    with assms(1) have "x = k" by simp
    with assms(2) True show ?thesis by (simp add: revoked_row_def)
  next
    case False
    then show ?thesis by simp
  qed
qed

text \<open>
  C6 (as stated): revoking an already-revoked credential leaves its state, including
  \<open>revoked_at\<close>, unchanged. Fails: the update is unconditional, so the second
  revocation overwrites \<open>revoked_at\<close> with the time of the second call.
\<close>

theorem revokeProxyKey_again_counterexample:
  "map is_active (proxy_keys sample_db) = [True, False]
   \<and> map revoked_at (proxy_keys sample_db) = [None, Some ''2026-02-21T09:00:00.000Z'']
   \<and> map revoked_at (proxy_keys (snd (revokeProxyKey no_faults mid_march ''key-2'' ''org-1'' sample_db)))
       = [None, Some ''2026-03-15T10:00:00.000Z'']
   \<and> snd (revokeProxyKey no_faults mid_march ''key-2'' ''org-1'' sample_db) \<noteq> sample_db"
proof -
  have a: "map revoked_at (proxy_keys (snd (revokeProxyKey no_faults mid_march ''key-2'' ''org-1'' sample_db)))
       = [None, Some ''2026-03-15T10:00:00.000Z'']"
    by (simp add: revokeProxyKey_def single_def no_faults_def sample_db_def active_key_def
          revoked_key_def mid_march_def)
  have b: "map revoked_at (proxy_keys sample_db) = [None, Some ''2026-02-21T09:00:00.000Z'']"
    by (simp add: sample_db_def active_key_def revoked_key_def)
  have "map is_active (proxy_keys sample_db) = [True, False]"
    by (simp add: sample_db_def active_key_def revoked_key_def)
  moreover have "snd (revokeProxyKey no_faults mid_march ''key-2'' ''org-1'' sample_db) \<noteq> sample_db"
    using a b by auto
  ultimately show ?thesis using a b by blast
qed

text \<open>
  C6 (amended): a successful revocation returns the row with \<open>is_active = false\<close> and
  \<open>revoked_at\<close> set to the time of the call; once a credential is revoked it stays
  inactive under every sequence of create and revoke operations; and revoking an
  already-revoked credential succeeds, changing nothing but its \<open>revoked_at\<close>, which
  becomes the time of the new call.
\<close>

theorem revokeProxyKey_one_way:
  "(revokeProxyKey F clk keyId organizationId db = (Inr row, db')
      \<longrightarrow> \<not> is_active row \<and> revoked_at row = Some (iso clk) \<and> key_id row = keyId
          \<and> row \<in> set (proxy_keys db'))
   \<and> (revoked_in i db \<longrightarrow> revoked_in i (apply_key_operations cfg operations db))
   \<and> (F (update_proxy_key_revoked keyId organizationId) = None
       \<and> filter (\<lambda>x. key_id x = keyId \<and> key_organization_id x = organizationId) (proxy_keys db) = [k]
       \<and> \<not> is_active k
      \<longrightarrow> revokeProxyKey F clk keyId organizationId db =
          (Inr (k\<lparr>revoked_at := Some (iso clk)\<rparr>),
           db\<lparr>proxy_keys :=
                map (\<lambda>x. if key_id x = keyId \<and> key_organization_id x = organizationId
                         then x\<lparr>revoked_at := Some (iso clk)\<rparr> else x) (proxy_keys db)\<rparr>))"
proof -
  have first: "\<not> is_active row \<and> revoked_at row = Some (iso clk) \<and> key_id row = keyId
          \<and> row \<in> set (proxy_keys db')"
    if "revokeProxyKey F clk keyId organizationId db = (Inr row, db')"
    using revokeProxyKey_result [OF that] by simp
  have always: "revoked_in i (apply_key_operations cfg operations db)" if "revoked_in i db"
    using that by (rule revoked_in_operations)
  have again: "revokeProxyKey F clk keyId organizationId db =
          (Inr (k\<lparr>revoked_at := Some (iso clk)\<rparr>),
           db\<lparr>proxy_keys :=
                map (\<lambda>x. if key_id x = keyId \<and> key_organization_id x = organizationId
                         then x\<lparr>revoked_at := Some (iso clk)\<rparr> else x) (proxy_keys db)\<rparr>)"
    if "F (update_proxy_key_revoked keyId organizationId) = None"
      and "filter (\<lambda>x. key_id x = keyId \<and> key_organization_id x = organizationId) (proxy_keys db) = [k]"
      and "\<not> is_active k"
  proof -
    have "revokeProxyKey F clk keyId organizationId db =
     (Inr (k\<lparr>revoked_at := Some (iso clk)\<rparr>),
      db\<lparr>proxy_keys := map (\<lambda>x. if key_id x = keyId \<and> key_organization_id x = organizationId
                                then revoked_row clk x else x) (proxy_keys db)\<rparr>)"
      using that by (rule revokeProxyKey_again)
    moreover have "map (\<lambda>x. if key_id x = keyId \<and> key_organization_id x = organizationId
                                then revoked_row clk x else x) (proxy_keys db)
        = map (\<lambda>x. if key_id x = keyId \<and> key_organization_id x = organizationId
                         then x\<lparr>revoked_at := Some (iso clk)\<rparr> else x) (proxy_keys db)"
      using that(2,3) by (rule revoked_rows_only_revoked_at)
    ultimately show ?thesis by (simp only:)
  qed
  from first always again show ?thesis by blast
qed

theorem revokeProxyKey_one_way_witness:
  "revokeProxyKey no_faults mid_march ''key-1'' ''org-1'' sample_db
     = (Inr (revoked_row mid_march active_key),
        sample_db\<lparr>proxy_keys := [revoked_row mid_march active_key, revoked_key]\<rparr>)
   \<and> is_active (revoked_row mid_march active_key) = False
   \<and> revoked_at (revoked_row mid_march active_key) = Some ''2026-03-15T10:00:00.000Z''
   \<and> revoked_in ''key-2'' sample_db
   \<and> revoked_in ''key-2''
        (apply_key_operations sample_cfg
           [create no_faults mid_march ''abc'' ''key-3'' ''org-1'' ''proj-1'' ''user-1'' '''',
            revoke no_faults mid_march ''key-2'' ''org-1''] sample_db)
   \<and> revokeProxyKey no_faults mid_march ''key-2'' ''org-1'' sample_db
     = (Inr (revoked_key\<lparr>revoked_at := Some ''2026-03-15T10:00:00.000Z''\<rparr>),
        sample_db\<lparr>proxy_keys := [active_key, revoked_key\<lparr>revoked_at := Some ''2026-03-15T10:00:00.000Z''\<rparr>]\<rparr>)"
proof -
  note t = revokeProxyKey_one_way
  have r1: "revokeProxyKey no_faults mid_march ''key-1'' ''org-1'' sample_db
     = (Inr (revoked_row mid_march active_key),
        sample_db\<lparr>proxy_keys := [revoked_row mid_march active_key, revoked_key]\<rparr>)"
    by (simp add: revokeProxyKey_def single_def no_faults_def sample_db_def active_key_def
          revoked_key_def revoked_row_def)
  from t [where F = no_faults and clk = mid_march and keyId = "''key-1''" and organizationId = "''org-1''"
           and db = sample_db and row = "revoked_row mid_march active_key"
           and db' = "sample_db\<lparr>proxy_keys := [revoked_row mid_march active_key, revoked_key]\<rparr>"] r1
  have c1: "is_active (revoked_row mid_march active_key) = False
            \<and> revoked_at (revoked_row mid_march active_key) = Some ''2026-03-15T10:00:00.000Z''"
    by (simp add: mid_march_def)
  have r2: "revoked_in ''key-2'' sample_db"
    by (simp add: revoked_in_def sample_db_def active_key_def revoked_key_def)
  from t [where i = "''key-2''" and db = sample_db and cfg = sample_cfg
           and operations = "[create no_faults mid_march ''abc'' ''key-3'' ''org-1'' ''proj-1'' ''user-1'' '''',
            revoke no_faults mid_march ''key-2'' ''org-1'']"] r2
  have c2: "revoked_in ''key-2''
        (apply_key_operations sample_cfg
           [create no_faults mid_march ''abc'' ''key-3'' ''org-1'' ''proj-1'' ''user-1'' '''',
            revoke no_faults mid_march ''key-2'' ''org-1''] sample_db)"
    by blast
  have h3: "no_faults (update_proxy_key_revoked ''key-2'' ''org-1'') = None
       \<and> filter (\<lambda>x. key_id x = ''key-2'' \<and> key_organization_id x = ''org-1'') (proxy_keys sample_db) = [revoked_key]
       \<and> \<not> is_active revoked_key"
    by (simp add: no_faults_def sample_db_def active_key_def revoked_key_def)
  from t [where F = no_faults and clk = mid_march and keyId = "''key-2''" and organizationId = "''org-1''"
           and db = sample_db and k = revoked_key] h3
  have "revokeProxyKey no_faults mid_march ''key-2'' ''org-1'' sample_db =
          (Inr (revoked_key\<lparr>revoked_at := Some (iso mid_march)\<rparr>),
           sample_db\<lparr>proxy_keys :=
                map (\<lambda>x. if key_id x = ''key-2'' \<and> key_organization_id x = ''org-1''
                         then x\<lparr>revoked_at := Some (iso mid_march)\<rparr> else x) (proxy_keys sample_db)\<rparr>)"
    by blast
  then have c3: "revokeProxyKey no_faults mid_march ''key-2'' ''org-1'' sample_db
     = (Inr (revoked_key\<lparr>revoked_at := Some ''2026-03-15T10:00:00.000Z''\<rparr>),
        sample_db\<lparr>proxy_keys := [active_key, revoked_key\<lparr>revoked_at := Some ''2026-03-15T10:00:00.000Z''\<rparr>]\<rparr>)"
    by (simp add: mid_march_def sample_db_def active_key_def revoked_key_def)
  from r1 c1 r2 c2 c3 show ?thesis by blast
qed

section \<open>Properties of encryption\<close>













text \<open>
  C9 (as stated): every stored value that \<open>isEncrypted\<close> rejects is returned unchanged
  and no error is raised. Fails for the empty string: \<open>isEncrypted\<close> rejects it, and
  the guard \<open>!data.openai_api_key\<close> throws before the format is looked at.
\<close>

theorem getOrganizationOpenAIKey_empty_counterexample:
  "isEncrypted [] = False
   \<and> map openai_api_key (filter (\<lambda>r. org_id r = ''org-3'') (organizations sample_db)) = [Some []]
   \<and> getOrganizationOpenAIKey sample_cfg no_faults ''org-3'' sample_db
       = Inl (Error ''Organization OpenAI API key not configured'')"
  by (simp add: isEncrypted_def getOrganizationOpenAIKey_def no_faults_def single_def sample_db_def)

text \<open>
  C9 (amended): for every stored non-empty value that \<open>isEncrypted\<close> rejects,
  \<open>getOrganizationOpenAIKey\<close> returns the stored value unchanged, whatever the cipher
  and the master key are: nothing is decrypted and no error is raised.
\<close>

theorem getOrganizationOpenAIKey_legacy_plaintext:
  "F (select_organization_openai_key organizationId) = None
   \<and> filter (\<lambda>r. org_id r = organizationId) (organizations db) = [row]
   \<and> openai_api_key row = Some stored \<and> stored \<noteq> [] \<and> \<not> isEncrypted stored
   \<longrightarrow> getOrganizationOpenAIKey cfg F organizationId db = Inr stored"
  by (simp add: getOrganizationOpenAIKey_def single_def)

theorem getOrganizationOpenAIKey_legacy_plaintext_witness:
  "no_faults (select_organization_openai_key ''org-1'') = None
   \<and> map openai_api_key (filter (\<lambda>r. org_id r = ''org-1'') (organizations sample_db))
       = [Some ''sk-proj-legacy'']
   \<and> isEncrypted ''sk-proj-legacy'' = False
   \<and> getOrganizationOpenAIKey sample_cfg no_faults ''org-1'' sample_db = Inr ''sk-proj-legacy''"
proof -
  have f: "no_faults (select_organization_openai_key ''org-1'') = None"
    by (simp add: no_faults_def)
  have r: "filter (\<lambda>r. org_id r = ''org-1'') (organizations sample_db)
      = [\<lparr>org_id = ''org-1'', openai_api_key = Some ''sk-proj-legacy'',
          org_monthly_budget_usd = Some 10\<rparr>]"
    by (simp add: sample_db_def)
  have n: "isEncrypted ''sk-proj-legacy'' = False"
    by (simp add: isEncrypted_def split_def)
  from getOrganizationOpenAIKey_legacy_plaintext [of no_faults "''org-1''" sample_db
      "\<lparr>org_id = ''org-1'', openai_api_key = Some ''sk-proj-legacy'',
          org_monthly_budget_usd = Some 10\<rparr>" "''sk-proj-legacy''" sample_cfg] f r n
  have "getOrganizationOpenAIKey sample_cfg no_faults ''org-1'' sample_db = Inr ''sk-proj-legacy''"
    by simp
  with f r n show ?thesis by simp
qed


section \<open>Properties of the proxy\<close>




lemma verify_good:
  "verifyProxyKey sample_cfg F ''sk-spendai-good'' sample_db
     = (if F select_active_proxy_keys = None
        then Inr \<lparr>verified_id = ''key-1'', verified_organization_id = ''org-1'',
                  verified_project_id = ''proj-1'', verified_is_active = True\<rparr>
        else Inl (Error ''Invalid or revoked proxy key''))"
  by (simp add: verifyProxyKey_def verifyProxyKey_try_def hashKeyValue_def getServerSecret_def
        sample_cfg_def sample_hmac_def sample_db_def active_key_def revoked_key_def
        split: option.splits)




lemma without_ledger_faults_reads:
  "without_ledger_faults F select_active_proxy_keys = F select_active_proxy_keys"
  "without_ledger_faults F (select_organization_openai_key organizationId)
     = F (select_organization_openai_key organizationId)"
  by (simp_all add: without_ledger_faults_def)

lemma verifyProxyKey_without_ledger_faults:
  "verifyProxyKey cfg (without_ledger_faults F) proxyKey db = verifyProxyKey cfg F proxyKey db"
  unfolding verifyProxyKey_def verifyProxyKey_try_def without_ledger_faults_reads
  by (rule refl)

lemma getOrganizationOpenAIKey_without_ledger_faults:
  "getOrganizationOpenAIKey cfg (without_ledger_faults F) organizationId db
     = getOrganizationOpenAIKey cfg F organizationId db"
  unfolding getOrganizationOpenAIKey_def without_ledger_faults_reads
  by (rule refl)

lemma proxyChatCompletion_forwarded:
  assumes "verifyProxyKey cfg F proxyKey db = Inr key"
    and "validateModel (request_model requestBody) = valid"
    and "getOrganizationOpenAIKey cfg F (verified_organization_id key) db = Inr openaiApiKey"
    and "axios_post \<lparr>url = ''https://api.openai.com/v1/chat/completions'',
                     body = requestBody,
                     request_headers = buildForwardHeaders requestHeaders openaiApiKey,
                     timeout = 60000\<rparr> = Inr openaiResponse"
  shows "fst (proxyChatCompletion cfg F clk requestId axios_post proxyKey requestBody requestHeaders db)
       = Inr (forwarded requestId clk key openaiResponse)"
  by (simp add: proxyChatCompletion_def assms Let_def split: prod.splits)

text \<open>
  C1: when the credential verifies, the model is allowed, the upstream secret resolves
  and the outbound call returns a response, \<open>proxyChatCompletion\<close> returns the
  forwarded response (its status, body and trace identifier) whatever the ledger write
  does: the value is the same under the given datastore failures, including a failing
  insert into \<open>usage_logs\<close>, and under the same failures with the ledger insert
  succeeding. No error of the ledger write reaches the caller.
\<close>

theorem proxyChatCompletion_ledger_failure_swallowed:
  "verifyProxyKey cfg F proxyKey db = Inr key
   \<and> validateModel (request_model requestBody) = valid
   \<and> getOrganizationOpenAIKey cfg F (verified_organization_id key) db = Inr openaiApiKey
   \<and> axios_post \<lparr>url = ''https://api.openai.com/v1/chat/completions'',
                  body = requestBody,
                  request_headers = buildForwardHeaders requestHeaders openaiApiKey,
                  timeout = 60000\<rparr> = Inr openaiResponse
   \<longrightarrow> fst (proxyChatCompletion cfg F clk requestId axios_post proxyKey requestBody requestHeaders db)
         = Inr (forwarded requestId clk key openaiResponse)
       \<and> fst (proxyChatCompletion cfg (without_ledger_faults F) clk requestId axios_post proxyKey
                requestBody requestHeaders db)
         = Inr (forwarded requestId clk key openaiResponse)
       \<and> statusCode (forwarded requestId clk key openaiResponse) = status openaiResponse
       \<and> response_data (forwarded requestId clk key openaiResponse) = data openaiResponse
       \<and> spendai_request_id (forwarded requestId clk key openaiResponse) = requestId"
proof
  assume a: "verifyProxyKey cfg F proxyKey db = Inr key
   \<and> validateModel (request_model requestBody) = valid
   \<and> getOrganizationOpenAIKey cfg F (verified_organization_id key) db = Inr openaiApiKey
   \<and> axios_post \<lparr>url = ''https://api.openai.com/v1/chat/completions'',
                  body = requestBody,
                  request_headers = buildForwardHeaders requestHeaders openaiApiKey,
                  timeout = 60000\<rparr> = Inr openaiResponse"
  then have k: "verifyProxyKey cfg F proxyKey db = Inr key"
    and m: "validateModel (request_model requestBody) = valid"
    and o: "getOrganizationOpenAIKey cfg F (verified_organization_id key) db = Inr openaiApiKey"
    and x: "axios_post \<lparr>url = ''https://api.openai.com/v1/chat/completions'',
                  body = requestBody,
                  request_headers = buildForwardHeaders requestHeaders openaiApiKey,
                  timeout = 60000\<rparr> = Inr openaiResponse"
    by simp_all
  from k m o x
  have one: "fst (proxyChatCompletion cfg F clk requestId axios_post proxyKey requestBody requestHeaders db)
         = Inr (forwarded requestId clk key openaiResponse)"
    by (rule proxyChatCompletion_forwarded)
  from k have k': "verifyProxyKey cfg (without_ledger_faults F) proxyKey db = Inr key"
    by (simp only: verifyProxyKey_without_ledger_faults)
  from o have o': "getOrganizationOpenAIKey cfg (without_ledger_faults F)
      (verified_organization_id key) db = Inr openaiApiKey"
    by (simp only: getOrganizationOpenAIKey_without_ledger_faults)
  from k' m o' x
  have two: "fst (proxyChatCompletion cfg (without_ledger_faults F) clk requestId axios_post proxyKey
                requestBody requestHeaders db)
         = Inr (forwarded requestId clk key openaiResponse)"
    by (rule proxyChatCompletion_forwarded)
  from one two show "fst (proxyChatCompletion cfg F clk requestId axios_post proxyKey requestBody requestHeaders db)
         = Inr (forwarded requestId clk key openaiResponse)
       \<and> fst (proxyChatCompletion cfg (without_ledger_faults F) clk requestId axios_post proxyKey
                requestBody requestHeaders db)
         = Inr (forwarded requestId clk key openaiResponse)
       \<and> statusCode (forwarded requestId clk key openaiResponse) = status openaiResponse
       \<and> response_data (forwarded requestId clk key openaiResponse) = data openaiResponse
       \<and> spendai_request_id (forwarded requestId clk key openaiResponse) = requestId"
    by (simp add: forwarded_def)
qed

theorem proxyChatCompletion_ledger_failure_swallowed_witness:
  "fst (logFromOpenAIResponse ledger_down mid_march ''req-7'' ''org-1'' ''proj-1'' ''key-1''
          (data sample_response) sample_db)
     = Inl (Error ''Failed to log usage: connection reset'')
   \<and> map request_id (usage_logs (snd (logFromOpenAIResponse (without_ledger_faults ledger_down)
          mid_march ''req-7'' ''org-1'' ''proj-1'' ''key-1'' (data sample_response) sample_db)))
     = [''req-1'', ''req-2'', ''req-0'', ''req-7'']
   \<and> fst (proxyChatCompletion sample_cfg ledger_down mid_march ''req-7'' sample_axios
            ''sk-spendai-good'' (sample_request ''gpt-4'') [] sample_db)
     = Inr (forwarded ''req-7'' mid_march
              \<lparr>verified_id = ''key-1'', verified_organization_id = ''org-1'',
               verified_project_id = ''proj-1'', verified_is_active = True\<rparr> sample_response)
   \<and> fst (proxyChatCompletion sample_cfg (without_ledger_faults ledger_down) mid_march ''req-7''
            sample_axios ''sk-spendai-good'' (sample_request ''gpt-4'') [] sample_db)
     = Inr (forwarded ''req-7'' mid_march
              \<lparr>verified_id = ''key-1'', verified_organization_id = ''org-1'',
               verified_project_id = ''proj-1'', verified_is_active = True\<rparr> sample_response)
   \<and> statusCode (forwarded ''req-7'' mid_march
              \<lparr>verified_id = ''key-1'', verified_organization_id = ''org-1'',
               verified_project_id = ''proj-1'', verified_is_active = True\<rparr> sample_response) = 200"
proof -
  let ?key = "\<lparr>verified_id = ''key-1'', verified_organization_id = ''org-1'',
               verified_project_id = ''proj-1'', verified_is_active = True\<rparr>"
  have pr: "getModelPricing ''gpt-4'' = Some \<lparr>prompt = 30, completion = 60\<rparr>"
    by (simp add: getModelPricing_def getPricingTable_def)
  have ex: "extractUsageFromResponse (data sample_response)
      = Some \<lparr>usage_model = ''gpt-4'', usage_prompt_tokens = 1000,
              usage_completion_tokens = 500, usage_total_tokens = Some 1500\<rparr>"
    by (simp add: extractUsageFromResponse_def sample_response_def)
  have l: "fst (logFromOpenAIResponse ledger_down mid_march ''req-7'' ''org-1'' ''proj-1'' ''key-1''
          (data sample_response) sample_db)
     = Inl (Error ''Failed to log usage: connection reset'')"
    by (simp add: logFromOpenAIResponse_def ex logUsage_def ledger_down_def Error_def Let_def)
  have e: "usage_logs db' = usage_logs db"
    if "evaluateThresholds F clk params db = (calls, db')" for F clk params db calls db'
    using evaluateThresholds_other_tables(3) [of F clk params db] that by simp
  have u: "usage_logs (snd (checkBudgets F clk org proj db)) = usage_logs db" for F clk org proj db
    by (auto simp: checkBudgets_def split: sum.splits prod.splits option.splits if_splits dest!: e)
  have w: "map request_id (usage_logs (snd (logFromOpenAIResponse (without_ledger_faults ledger_down)
          mid_march ''req-7'' ''org-1'' ''proj-1'' ''key-1'' (data sample_response) sample_db)))
     = [''req-1'', ''req-2'', ''req-0'', ''req-7'']"
    by (simp add: logFromOpenAIResponse_def ex logUsage_def without_ledger_faults_def Let_def u
          sample_db_def sample_usage_def split: prod.splits)
  have k: "verifyProxyKey sample_cfg ledger_down ''sk-spendai-good'' sample_db = Inr ?key"
    by (simp add: verify_good ledger_down_def)
  have m: "validateModel (request_model (sample_request ''gpt-4'')) = valid"
    by (simp add: validateModel_def sample_request_def getSupportedModels_def)
  have o: "getOrganizationOpenAIKey sample_cfg ledger_down (verified_organization_id ?key) sample_db
      = Inr ''sk-proj-legacy''"
    by (simp add: getOrganizationOpenAIKey_def ledger_down_def single_def sample_db_def
          isEncrypted_def split_def)
  have x: "sample_axios \<lparr>url = ''https://api.openai.com/v1/chat/completions'',
                  body = sample_request ''gpt-4'',
                  request_headers = buildForwardHeaders [] ''sk-proj-legacy'',
                  timeout = 60000\<rparr> = Inr sample_response"
    by (simp add: sample_axios_def)
  from proxyChatCompletion_ledger_failure_swallowed [of sample_cfg ledger_down "''sk-spendai-good''"
      sample_db ?key "sample_request ''gpt-4''" "''sk-proj-legacy''" sample_axios "[]"
      sample_response mid_march "''req-7''"] k m o x
  have r: "fst (proxyChatCompletion sample_cfg ledger_down mid_march ''req-7'' sample_axios
            ''sk-spendai-good'' (sample_request ''gpt-4'') [] sample_db)
     = Inr (forwarded ''req-7'' mid_march ?key sample_response)
    \<and> fst (proxyChatCompletion sample_cfg (without_ledger_faults ledger_down) mid_march ''req-7''
            sample_axios ''sk-spendai-good'' (sample_request ''gpt-4'') [] sample_db)
     = Inr (forwarded ''req-7'' mid_march ?key sample_response)
    \<and> statusCode (forwarded ''req-7'' mid_march ?key sample_response) = status sample_response"
    by blast
  have "status sample_response = 200" by (simp add: sample_response_def)
  with l w r show ?thesis by simp
qed


end
